theory Spec2Isabelle
  imports Main "HOL-Library.Sublist"
begin

section \<open>Identifiers, time and text\<close>

text \<open>
  Identifiers are the UUID strings of the source. Every \<^verbatim>\<open>uuid4()\<close> call and every
  primary-key default is an explicit argument of the operation that makes it, and
  \<^verbatim>\<open>datetime.utcnow()\<close> is the argument \<open>now\<close>: one reading of the clock per operation.
\<close>

type_synonym uid = string
type_synonym datetime = nat

fun str_nat :: "nat \<Rightarrow> string" where
  "str_nat n = (if n < 10 then [''0123456789'' ! n]
                else str_nat (n div 10) @ [''0123456789'' ! (n mod 10)])"

declare str_nat.simps [simp del]

definition str_int :: "int \<Rightarrow> string" where
  "str_int i = (if i < 0 then CHR ''-'' # str_nat (nat (- i)) else str_nat (nat i))"

definition dict_get :: "'a option \<Rightarrow> 'a \<Rightarrow> 'a" where
  "dict_get v d = (case v of None \<Rightarrow> d | Some x \<Rightarrow> x)"

section \<open>The file store\<close>

text \<open>
  A path is the tuple of its parts, as \<^verbatim>\<open>pathlib.Path.parts\<close> has it; the path strings
  kept in database columns are stored as the parts of \<^verbatim>\<open>Path(s)\<close>. Formatted file and
  directory names are single parts (names hold no separator). The file store maps
  a path to the node found there.
\<close>

type_synonym path = "string list"

datatype fs_node = Dir | File string | Symlink path

type_synonym filesystem = "path \<Rightarrow> fs_node option"

definition path_exists :: "filesystem \<Rightarrow> path \<Rightarrow> bool" where
  "path_exists f p = (f p \<noteq> None)"

definition is_absolute :: "path \<Rightarrow> bool" where
  "is_absolute p = (case p of [] \<Rightarrow> False | x # _ \<Rightarrow> x = ''/'')"

definition joinpath :: "path \<Rightarrow> path \<Rightarrow> path" where
  "joinpath a b = (if is_absolute b then b else a @ b)"

definition mkdir_parents :: "filesystem \<Rightarrow> path \<Rightarrow> filesystem" where
  "mkdir_parents f p = (\<lambda>q. if prefix q p \<and> f q = None then Some Dir else f q)"

definition rmtree :: "filesystem \<Rightarrow> path \<Rightarrow> filesystem" where
  "rmtree f p = (\<lambda>q. if prefix p q then None else f q)"

definition write_file :: "filesystem \<Rightarrow> path \<Rightarrow> string \<Rightarrow> filesystem" where
  "write_file f p c = f(p \<mapsto> File c)"

definition copy2 :: "filesystem \<Rightarrow> path \<Rightarrow> path \<Rightarrow> filesystem" where
  "copy2 f src dst = f(dst := f src)"

definition copytree :: "filesystem \<Rightarrow> path \<Rightarrow> path \<Rightarrow> filesystem" where
  "copytree f src dst = (\<lambda>q. if prefix dst q then f (src @ drop (length dst) q) else f q)"

definition shutil_move :: "filesystem \<Rightarrow> path \<Rightarrow> path \<Rightarrow> filesystem" where
  "shutil_move f src dst =
     (\<lambda>q. if prefix dst q then f (src @ drop (length dst) q)
          else if prefix src q then None else f q)"

text \<open>\<^verbatim>\<open>Path.name\<close>, \<^verbatim>\<open>Path.suffix\<close>, \<^verbatim>\<open>Path.stem\<close>, \<^verbatim>\<open>str.rsplit('_', 1)\<close> and
  \<^verbatim>\<open>str.lstrip('.')\<close>.\<close>

definition path_name :: "path \<Rightarrow> string" where
  "path_name p = (if p = [] then [] else last p)"

definition after_last :: "char \<Rightarrow> string \<Rightarrow> string" where
  "after_last c s = rev (takeWhile (\<lambda>x. x \<noteq> c) (rev s))"

definition before_last :: "char \<Rightarrow> string \<Rightarrow> string" where
  "before_last c s = rev (tl (dropWhile (\<lambda>x. x \<noteq> c) (rev s)))"

definition has_suffix :: "string \<Rightarrow> bool" where
  "has_suffix nm = (CHR ''.'' \<in> set nm \<and> before_last CHR ''.'' nm \<noteq> []
                     \<and> after_last CHR ''.'' nm \<noteq> [])"

definition path_suffix :: "path \<Rightarrow> string" where
  "path_suffix p = (let nm = path_name p in
     if has_suffix nm then CHR ''.'' # after_last CHR ''.'' nm else [])"

definition path_stem :: "path \<Rightarrow> string" where
  "path_stem p = (let nm = path_name p in
     if has_suffix nm then before_last CHR ''.'' nm else nm)"

definition rsplit1 :: "char \<Rightarrow> string \<Rightarrow> string list" where
  "rsplit1 c s = (if c \<in> set s then [before_last c s, after_last c s] else [s])"

definition lstrip :: "char \<Rightarrow> string \<Rightarrow> string" where
  "lstrip c s = dropWhile (\<lambda>x. x = c) s"

section \<open>The data model\<close>

datatype run_status = run_not_started | run_in_progress | run_paused | run_completed | run_failed

datatype execution_status =
  pending | waiting_approval_to_start | in_progress | waiting_approval_to_complete
  | completed | failed

datatype interaction_type =
  approval_to_start | approval_to_complete | revision_request | script_input
  | validation_feedback

datatype rollback_type = checkpoint_level | run_level

datatype archived_item_type = item_run | item_checkpoint_execution | item_artifact

record pipeline =
  p_pipeline_id :: uid
  p_checkpoint_order :: "uid list"
  p_auto_advance :: bool

text \<open>The JSON documents of a checkpoint definition are read with \<^verbatim>\<open>.get(key, default)\<close>;
  each key the core reads is an optional field, \<open>None\<close> when the key is absent.\<close>

record checkpoint_definition =
  cd_checkpoint_id :: uid
  cd_pipeline_id :: uid
  cd_checkpoint_name :: string
  cd_max_auto_retries :: "int option"
  cd_save_as_artifact :: "bool option"
  cd_artifact_name :: "string option"
  cd_artifact_format :: "string option"
  cd_requires_approval_to_start :: "bool option"
  cd_requires_approval_to_complete :: "bool option"
  cd_max_revision_iterations :: "int option"

record pipeline_run =
  r_run_id :: uid
  r_pipeline_id :: uid
  r_run_version :: int
  r_status :: run_status
  r_current_checkpoint_id :: "uid option"
  r_current_checkpoint_position :: "int option"
  r_previous_run_id :: "uid option"
  r_extends_from_run_version :: "int option"
  r_created_at :: datetime
  r_started_at :: "datetime option"
  r_completed_at :: "datetime option"

record checkpoint_execution =
  e_execution_id :: uid
  e_run_id :: uid
  e_checkpoint_id :: uid
  e_checkpoint_position :: int
  e_status :: execution_status
  e_attempt_number :: int
  e_max_attempts :: int
  e_revision_iteration :: int
  e_max_revision_iterations :: int
  e_temp_workspace_path :: path
  e_permanent_output_path :: path
  e_created_at :: datetime
  e_started_at :: "datetime option"
  e_completed_at :: "datetime option"
  e_failed_at :: "datetime option"

record artifact =
  a_artifact_record_id :: uid
  a_execution_id :: uid
  a_artifact_id :: uid
  a_artifact_name :: string
  a_file_path :: path
  a_format :: string
  a_size_bytes :: "nat option"
  a_created_at :: datetime
  a_promoted_to_permanent_at :: "datetime option"

record human_interaction =
  hi_execution_id :: uid
  hi_timestamp :: datetime
  hi_interaction_type :: interaction_type
  hi_user_input :: "string option"
  hi_system_response :: "string option"

record archived_artifact =
  aa_artifact_record_id :: uid
  aa_artifact_id :: uid
  aa_artifact_name :: string
  aa_original_path :: path
  aa_archived_path :: path
  aa_size_bytes :: "nat option"

record rollback_event =
  rb_rollback_id :: uid
  rb_source_run_id :: uid
  rb_source_run_version :: int
  rb_rollback_type :: rollback_type
  rb_target_run_id :: "uid option"
  rb_target_checkpoint_id :: "uid option"
  rb_target_checkpoint_position :: "int option"
  rb_archive_location :: path
  rb_triggered_by :: string
  rb_user_reason :: "string option"
  rb_deleted_runs :: "(uid \<times> int) list"
  rb_deleted_checkpoint_executions :: "(uid \<times> int option) list"
  rb_archived_artifacts :: "archived_artifact list"
  rb_created_at :: datetime

record archived_item =
  ai_rollback_id :: uid
  ai_item_type :: archived_item_type
  ai_item_id :: uid
  ai_original_path :: path
  ai_archived_path :: path
  ai_size_bytes :: "nat option"

record event =
  ev_event_type :: string
  ev_pipeline_id :: "uid option"
  ev_run_id :: "uid option"
  ev_execution_id :: "uid option"
  ev_checkpoint_id :: "uid option"
  ev_rollback_id :: "uid option"
  ev_timestamp :: datetime
  ev_description :: string

text \<open>The store: one list per table, in insertion order, and the file store.\<close>

record state =
  pipelines :: "pipeline list"
  checkpoint_definitions :: "checkpoint_definition list"
  pipeline_runs :: "pipeline_run list"
  checkpoint_executions :: "checkpoint_execution list"
  artifacts :: "artifact list"
  human_interactions :: "human_interaction list"
  rollback_events :: "rollback_event list"
  archived_items :: "archived_item list"
  events :: "event list"
  files :: filesystem

datatype error =
    ExecutionNotFound uid
  | InvalidStateTransition execution_status execution_status
  | MaxRevisionsExceeded int
  | NoResultFound
  | MultipleResultsFound
  | IndexError
  | FileNotFoundError path
  | FileExistsError path
  | PipelineNotFound uid
  | PipelineHasNoCheckpoints
  | RunNotFound uid
  | RunNotInPipeline uid uid
  | RunAlreadyStarted run_status
  | FirstCheckpointNotFound uid
  | NoCheckpointAtPosition int

section \<open>The session of a request\<close>

text \<open>
  Every service below works on the session of one request, which \<^verbatim>\<open>database.get_db\<close>
  hands to the route: the second component of a service's result is that session as
  the service leaves it, by returning or by raising, with its pending writes. When
  the handler returns, \<^verbatim>\<open>get_db\<close> commits them; when it raises, \<^verbatim>\<open>session.rollback()\<close>
  drops them and the tables are what they were when the request began. The file store
  is outside the transaction: what was written to it stays.
\<close>

definition session_rollback :: "state \<Rightarrow> state \<Rightarrow> state" where
  "session_rollback committed session = committed\<lparr>files := files session\<rparr>"

definition get_db :: "(state \<Rightarrow> (error + 'a) \<times> state) \<Rightarrow> state \<Rightarrow> (error + 'a) \<times> state" where
  "get_db handler s =
     (case handler s of
        (Inl err, session) \<Rightarrow> (Inl err, session_rollback s session)
      | (Inr v, session) \<Rightarrow> (Inr v, session))"

section \<open>Queries\<close>

definition get_pipeline :: "state \<Rightarrow> uid \<Rightarrow> pipeline option" where
  "get_pipeline s pid = find (\<lambda>p. p_pipeline_id p = pid) (pipelines s)"

definition get_checkpoint_definition :: "state \<Rightarrow> uid \<Rightarrow> checkpoint_definition option" where
  "get_checkpoint_definition s cid = find (\<lambda>c. cd_checkpoint_id c = cid) (checkpoint_definitions s)"

definition get_run :: "state \<Rightarrow> uid \<Rightarrow> pipeline_run option" where
  "get_run s rid = find (\<lambda>r. r_run_id r = rid) (pipeline_runs s)"

definition get_execution :: "state \<Rightarrow> uid \<Rightarrow> checkpoint_execution option" where
  "get_execution s eid = find (\<lambda>e. e_execution_id e = eid) (checkpoint_executions s)"

definition artifacts_of :: "state \<Rightarrow> uid \<Rightarrow> artifact list" where
  "artifacts_of s eid = filter (\<lambda>a. a_execution_id a = eid) (artifacts s)"

text \<open>A changed attribute of a loaded row is written back by primary key.\<close>

definition save_execution :: "checkpoint_execution \<Rightarrow> state \<Rightarrow> state" where
  "save_execution e s = s\<lparr>checkpoint_executions :=
     map (\<lambda>x. if e_execution_id x = e_execution_id e then e else x) (checkpoint_executions s)\<rparr>"

definition save_run :: "pipeline_run \<Rightarrow> state \<Rightarrow> state" where
  "save_run r s = s\<lparr>pipeline_runs :=
     map (\<lambda>x. if r_run_id x = r_run_id r then r else x) (pipeline_runs s)\<rparr>"

definition save_artifact :: "artifact \<Rightarrow> state \<Rightarrow> state" where
  "save_artifact a s = s\<lparr>artifacts :=
     map (\<lambda>x. if a_artifact_record_id x = a_artifact_record_id a then a else x) (artifacts s)\<rparr>"

definition add_interaction :: "human_interaction \<Rightarrow> state \<Rightarrow> state" where
  "add_interaction h s = s\<lparr>human_interactions := human_interactions s @ [h]\<rparr>"

definition py_index :: "'a list \<Rightarrow> int \<Rightarrow> error + 'a" where
  "py_index xs i =
     (if 0 \<le> i \<and> i < int (length xs) then Inr (xs ! nat i)
      else if i < 0 \<and> - int (length xs) \<le> i then Inr (xs ! nat (int (length xs) + i))
      else Inl IndexError)"

section \<open>FileManager\<close>

text \<open>\<^verbatim>\<open>config.BASE_PIPELINES_PATH\<close> at its default \<^verbatim>\<open>./pipelines\<close>, and the directory
  names of \<^verbatim>\<open>config.py\<close>.\<close>

definition BASE_PIPELINES_PATH :: path where
  "BASE_PIPELINES_PATH = [''pipelines'']"

definition base_path :: "uid \<Rightarrow> path" where
  "base_path pid = BASE_PIPELINES_PATH @ [pid]"

definition runs_dir :: "uid \<Rightarrow> path" where
  "runs_dir pid = base_path pid @ [''runs'']"

definition temp_dir :: "uid \<Rightarrow> path" where
  "temp_dir pid = base_path pid @ [''.temp'']"

definition archived_dir :: "uid \<Rightarrow> path" where
  "archived_dir pid = base_path pid @ [''.archived'']"

definition get_run_directory :: "uid \<Rightarrow> int \<Rightarrow> path" where
  "get_run_directory pid run_version = runs_dir pid @ [''v'' @ str_int run_version]"

definition get_checkpoint_directory :: "uid \<Rightarrow> int \<Rightarrow> string \<Rightarrow> int \<Rightarrow> path" where
  "get_checkpoint_directory pid run_version checkpoint_name checkpoint_position =
     get_run_directory pid run_version
       @ [''checkpoint_'' @ str_int checkpoint_position @ ''_'' @ checkpoint_name]"

definition get_checkpoint_outputs_directory :: "uid \<Rightarrow> int \<Rightarrow> string \<Rightarrow> int \<Rightarrow> path" where
  "get_checkpoint_outputs_directory pid run_version checkpoint_name checkpoint_position =
     get_checkpoint_directory pid run_version checkpoint_name checkpoint_position @ [''outputs'']"

definition get_temp_execution_directory :: "uid \<Rightarrow> uid \<Rightarrow> path" where
  "get_temp_execution_directory pid execution_id = temp_dir pid @ [''exec_'' @ execution_id]"

definition mkdir_exist_ok :: "filesystem \<Rightarrow> path \<Rightarrow> filesystem" where
  "mkdir_exist_ok f p = (if f p = None then f(p \<mapsto> Dir) else f)"

definition create_run_directory :: "filesystem \<Rightarrow> uid \<Rightarrow> int \<Rightarrow> filesystem" where
  "create_run_directory f pid run_version = mkdir_parents f (get_run_directory pid run_version)"

definition create_checkpoint_outputs_directory ::
  "filesystem \<Rightarrow> uid \<Rightarrow> int \<Rightarrow> string \<Rightarrow> int \<Rightarrow> filesystem" where
  "create_checkpoint_outputs_directory f pid run_version checkpoint_name checkpoint_position =
     mkdir_parents f
       (get_checkpoint_outputs_directory pid run_version checkpoint_name checkpoint_position)"

definition create_temp_execution_directory :: "filesystem \<Rightarrow> uid \<Rightarrow> uid \<Rightarrow> filesystem" where
  "create_temp_execution_directory f pid execution_id =
     (let exec_dir = get_temp_execution_directory pid execution_id;
          f1 = mkdir_parents f exec_dir;
          f2 = mkdir_exist_ok f1 (exec_dir @ [''workspace''])
      in mkdir_exist_ok f2 (exec_dir @ [''artifacts_staging'']))"

definition delete_temp_execution_directory :: "filesystem \<Rightarrow> uid \<Rightarrow> uid \<Rightarrow> filesystem" where
  "delete_temp_execution_directory f pid execution_id =
     (let exec_dir = get_temp_execution_directory pid execution_id
      in if path_exists f exec_dir then rmtree f exec_dir else f)"

definition get_artifact_staging_path :: "uid \<Rightarrow> uid \<Rightarrow> string \<Rightarrow> string \<Rightarrow> string \<Rightarrow> path" where
  "get_artifact_staging_path pid execution_id artifact_name artifact_id artifact_format =
     get_temp_execution_directory pid execution_id
       @ [''artifacts_staging'', artifact_name @ ''_'' @ artifact_id @ ''.'' @ artifact_format]"

definition get_permanent_artifact_path ::
  "uid \<Rightarrow> int \<Rightarrow> string \<Rightarrow> int \<Rightarrow> string \<Rightarrow> string \<Rightarrow> string \<Rightarrow> path" where
  "get_permanent_artifact_path pid run_version checkpoint_name checkpoint_position
       artifact_name artifact_id artifact_format =
     get_checkpoint_outputs_directory pid run_version checkpoint_name checkpoint_position
       @ [artifact_name @ ''_'' @ artifact_id @ ''_v'' @ str_int run_version
            @ ''.'' @ artifact_format]"

text \<open>\<^verbatim>\<open>shutil.move\<close> of a missing source raises \<^verbatim>\<open>FileNotFoundError\<close>; the output
  directory has been made by then.\<close>

definition promote_artifact_to_permanent ::
  "filesystem \<Rightarrow> uid \<Rightarrow> uid \<Rightarrow> int \<Rightarrow> string \<Rightarrow> int \<Rightarrow> string \<Rightarrow> string \<Rightarrow> string
     \<Rightarrow> (error + path) \<times> filesystem" where
  "promote_artifact_to_permanent f pid execution_id run_version checkpoint_name
       checkpoint_position artifact_name artifact_id artifact_format =
     (let staging_path =
            get_artifact_staging_path pid execution_id artifact_name artifact_id artifact_format;
          permanent_path =
            get_permanent_artifact_path pid run_version checkpoint_name checkpoint_position
              artifact_name artifact_id artifact_format;
          f1 = mkdir_parents f (butlast permanent_path)
      in if f1 staging_path = None then (Inl (FileNotFoundError staging_path), f1)
         else (Inr permanent_path, shutil_move f1 staging_path permanent_path))"

text \<open>The directory name carries the rollback id and the clock reading (the source
  formats it with \<^verbatim>\<open>strftime\<close>; here it is the decimal of \<open>now\<close>).\<close>

definition rollback_directory :: "uid \<Rightarrow> uid \<Rightarrow> datetime \<Rightarrow> path" where
  "rollback_directory pid rollback_id now =
     archived_dir pid @ [''rollback_'' @ rollback_id @ ''_'' @ str_nat now]"

definition create_rollback_directory :: "filesystem \<Rightarrow> uid \<Rightarrow> uid \<Rightarrow> datetime \<Rightarrow> filesystem" where
  "create_rollback_directory f pid rollback_id now =
     (let rollback_dir = rollback_directory pid rollback_id now;
          f1 = mkdir_parents f rollback_dir
      in mkdir_exist_ok f1 (rollback_dir @ [''archived_data'']))"

text \<open>On POSIX the pointer is a symbolic link; when making it fails (the parent
  directory is missing) the fallback is a directory holding a marker file.\<close>

definition update_latest_symlink :: "filesystem \<Rightarrow> uid \<Rightarrow> int \<Rightarrow> filesystem" where
  "update_latest_symlink f pid run_version =
     (let latest_path = runs_dir pid @ [''latest''];
          target_path = get_run_directory pid run_version;
          f1 = (case f latest_path of
                  None \<Rightarrow> f
                | Some (Symlink _) \<Rightarrow> f(latest_path := None)
                | Some _ \<Rightarrow> rmtree f latest_path)
      in if f1 (runs_dir pid) = Some Dir then f1(latest_path \<mapsto> Symlink target_path)
         else write_file (mkdir_parents f1 latest_path)
                (latest_path @ [''points_to_v'' @ str_int run_version]) [])"

definition latest_points_to :: "filesystem \<Rightarrow> uid \<Rightarrow> int \<Rightarrow> bool" where
  "latest_points_to f pid run_version =
     (f (runs_dir pid @ [''latest'']) = Some (Symlink (get_run_directory pid run_version))
      \<or> f (runs_dir pid @ [''latest'', ''points_to_v'' @ str_int run_version]) = Some (File []))"

text \<open>\<^verbatim>\<open>json.dump\<close> of a flat document, rendered one \<open>key: value\<close> line per entry.\<close>

definition json_dump :: "(string \<times> string option) list \<Rightarrow> string" where
  "json_dump kvs =
     concat (map (\<lambda>(k, v). k @ '': '' @ (case v of None \<Rightarrow> ''null'' | Some x \<Rightarrow> x) @ [CHR 0x0A]) kvs)"

definition save_run_info ::
  "filesystem \<Rightarrow> uid \<Rightarrow> int \<Rightarrow> (string \<times> string option) list \<Rightarrow> error + filesystem" where
  "save_run_info f pid run_version run_data =
     (let run_dir = get_run_directory pid run_version;
          info_path = run_dir @ [''run_info.json'']
      in if f run_dir = Some Dir then Inr (write_file f info_path (json_dump run_data))
         else Inl (FileNotFoundError info_path))"

definition status_name :: "run_status \<Rightarrow> string" where
  "status_name st = (case st of run_not_started \<Rightarrow> ''not_started''
     | run_in_progress \<Rightarrow> ''in_progress'' | run_paused \<Rightarrow> ''paused''
     | run_completed \<Rightarrow> ''completed'' | run_failed \<Rightarrow> ''failed'')"

section \<open>RunService.create_checkpoint_execution\<close>

definition create_checkpoint_execution ::
  "datetime \<Rightarrow> uid \<Rightarrow> state \<Rightarrow> pipeline_run \<Rightarrow> checkpoint_definition \<Rightarrow> int
     \<Rightarrow> checkpoint_execution \<times> state" where
  "create_checkpoint_execution now execution_id s run checkpoint_def position =
     (let pid = r_pipeline_id run;
          temp_dir = get_temp_execution_directory pid execution_id;
          f1 = create_temp_execution_directory (files s) pid execution_id;
          permanent_dir = get_checkpoint_outputs_directory pid (r_run_version run)
                            (cd_checkpoint_name checkpoint_def) position;
          f2 = create_checkpoint_outputs_directory f1 pid (r_run_version run)
                 (cd_checkpoint_name checkpoint_def) position;
          max_attempts = dict_get (cd_max_auto_retries checkpoint_def) 0 + 1;
          execution = \<lparr>e_execution_id = execution_id,
                       e_run_id = r_run_id run,
                       e_checkpoint_id = cd_checkpoint_id checkpoint_def,
                       e_checkpoint_position = position,
                       e_status = pending,
                       e_attempt_number = 1,
                       e_max_attempts = max_attempts,
                       e_revision_iteration = 0,
                       e_max_revision_iterations =
                         dict_get (cd_max_revision_iterations checkpoint_def) 3,
                       e_temp_workspace_path = temp_dir,
                       e_permanent_output_path = permanent_dir,
                       e_created_at = now,
                       e_started_at = None,
                       e_completed_at = None,
                       e_failed_at = None\<rparr>;
          s1 = s\<lparr>checkpoint_executions := checkpoint_executions s @ [execution], files := f2\<rparr>;
          requires_approval = dict_get (cd_requires_approval_to_start checkpoint_def) False
      in if requires_approval then
           (let execution' = execution\<lparr>e_status := waiting_approval_to_start\<rparr>;
                interaction = \<lparr>hi_execution_id = execution_id, hi_timestamp = now,
                               hi_interaction_type = approval_to_start,
                               hi_user_input = None,
                               hi_system_response =
                                 Some ''Waiting for user approval to start this checkpoint.''\<rparr>
            in (execution', add_interaction interaction (save_execution execution' s1)))
         else
           (let execution' = execution\<lparr>e_status := in_progress, e_started_at := Some now\<rparr>
            in (execution', save_execution execution' s1)))"

section \<open>ExecutionService\<close>

definition approve_start ::
  "datetime \<Rightarrow> state \<Rightarrow> uid \<Rightarrow> (error + checkpoint_execution) \<times> state" where
  "approve_start now s execution_id =
     (case get_execution s execution_id of
        None \<Rightarrow> (Inl (ExecutionNotFound execution_id), s)
      | Some execution \<Rightarrow>
          if e_status execution \<noteq> waiting_approval_to_start
          then (Inl (InvalidStateTransition (e_status execution) waiting_approval_to_start), s)
          else
            (let execution' = execution\<lparr>e_status := in_progress, e_started_at := Some now\<rparr>;
                 interaction = \<lparr>hi_execution_id = execution_id, hi_timestamp = now,
                                hi_interaction_type = approval_to_start,
                                hi_user_input = Some ''approved'',
                                hi_system_response =
                                  Some ''Checkpoint execution approved and started.''\<rparr>
             in (Inr execution', add_interaction interaction (save_execution execution' s))))"

text \<open>The staged file name is parsed back into the artifact name, id and format.\<close>

definition staged_name_parts :: "artifact \<Rightarrow> string \<times> string \<times> string" where
  "staged_name_parts a =
     (let staging_path = a_file_path a;
          stem = path_stem staging_path;
          parts = rsplit1 CHR ''_'' stem;
          artifact_format = lstrip CHR ''.'' (path_suffix staging_path)
      in if length parts = 2 then (parts ! 0, parts ! 1, artifact_format)
         else (stem, a_artifact_id a, artifact_format))"

definition promote_one ::
  "datetime \<Rightarrow> checkpoint_execution \<Rightarrow> pipeline_run \<Rightarrow> checkpoint_definition
     \<Rightarrow> state \<times> (string \<times> path) list \<Rightarrow> artifact \<Rightarrow> state \<times> (string \<times> path) list" where
  "promote_one now execution run checkpoint_def acc a =
     (let s = fst acc; promoted = snd acc;
          (name_part, id_part, artifact_format) = staged_name_parts a
      in case promote_artifact_to_permanent (files s) (r_pipeline_id run)
                (e_execution_id execution) (r_run_version run)
                (cd_checkpoint_name checkpoint_def) (e_checkpoint_position execution)
                name_part id_part artifact_format of
           (Inr permanent_path, f') \<Rightarrow>
             (save_artifact (a\<lparr>a_file_path := permanent_path,
                               a_promoted_to_permanent_at := Some now\<rparr>) (s\<lparr>files := f'\<rparr>),
              promoted @ [(a_artifact_name a, permanent_path)])
         | (Inl _, f') \<Rightarrow> (s\<lparr>files := f'\<rparr>, promoted))"

definition promote_all ::
  "datetime \<Rightarrow> checkpoint_execution \<Rightarrow> pipeline_run \<Rightarrow> checkpoint_definition \<Rightarrow> state
     \<Rightarrow> state \<times> (string \<times> path) list" where
  "promote_all now execution run checkpoint_def s =
     foldl (promote_one now execution run checkpoint_def) (s, [])
       (artifacts_of s (e_execution_id execution))"

record completion_result =
  cr_execution :: checkpoint_execution
  cr_promoted_artifacts :: "(string \<times> path) list"
  cr_next_checkpoint_id :: "uid option"
  cr_next_execution_id :: "uid option"
  cr_run_status :: run_status

definition run_info_final :: "pipeline_run \<Rightarrow> (string \<times> string option) list" where
  "run_info_final run =
     [(''run_id'', Some (r_run_id run)),
      (''pipeline_id'', Some (r_pipeline_id run)),
      (''run_version'', Some (str_int (r_run_version run))),
      (''status'', Some (status_name (r_status run))),
      (''created_at'', Some (str_nat (r_created_at run))),
      (''started_at'', map_option str_nat (r_started_at run)),
      (''completed_at'', map_option str_nat (r_completed_at run)),
      (''previous_run_id'', r_previous_run_id run),
      (''extends_from_run_version'', map_option str_int (r_extends_from_run_version run))]"

text \<open>The completion protocol, in its two halves: promotion, the \<open>completed\<close> status
  and the interaction record; then the step to the next checkpoint or the end of the
  run.\<close>

definition mark_completed ::
  "datetime \<Rightarrow> state \<Rightarrow> checkpoint_execution \<Rightarrow> pipeline_run \<Rightarrow> checkpoint_definition \<Rightarrow> bool
     \<Rightarrow> state \<times> (string \<times> path) list" where
  "mark_completed now s execution run checkpoint_def promote_artifacts =
     (let promotion = (if promote_artifacts then promote_all now execution run checkpoint_def s
                       else (s, []));
          s1 = fst promotion;
          promoted_artifacts = snd promotion;
          execution' = execution\<lparr>e_status := completed, e_completed_at := Some now\<rparr>;
          interaction = \<lparr>hi_execution_id = e_execution_id execution, hi_timestamp = now,
                         hi_interaction_type = approval_to_complete,
                         hi_user_input = Some ''approved'',
                         hi_system_response =
                           Some (''Checkpoint completed. ''
                                 @ str_nat (length promoted_artifacts)
                                 @ '' artifacts promoted.'')\<rparr>
      in (add_interaction interaction (save_execution execution' s1), promoted_artifacts))"

definition advance_or_finish ::
  "datetime \<Rightarrow> uid \<Rightarrow> state \<Rightarrow> checkpoint_execution \<Rightarrow> pipeline_run \<Rightarrow> pipeline
     \<Rightarrow> (string \<times> path) list \<Rightarrow> (error + completion_result) \<times> state" where
  "advance_or_finish now next_execution_id s2 execution' run pipeline promoted_artifacts =
     (let current_position = e_checkpoint_position execution';
          checkpoint_order = p_checkpoint_order pipeline
      in if current_position + 1 < int (length checkpoint_order) then
           (case py_index checkpoint_order (current_position + 1) of
              Inl err \<Rightarrow> (Inl err, s2)
            | Inr next_checkpoint_id \<Rightarrow>
               (case get_checkpoint_definition s2 next_checkpoint_id of
                  None \<Rightarrow>
                    (Inr \<lparr>cr_execution = execution',
                          cr_promoted_artifacts = promoted_artifacts,
                          cr_next_checkpoint_id = Some next_checkpoint_id,
                          cr_next_execution_id = None,
                          cr_run_status = r_status run\<rparr>, s2)
                | Some next_checkpoint_def \<Rightarrow>
                    (let s3 = s2\<lparr>files := delete_temp_execution_directory (files s2)
                                   (r_pipeline_id run) (e_execution_id execution')\<rparr>;
                         created = create_checkpoint_execution now next_execution_id s3 run
                                     next_checkpoint_def (current_position + 1);
                         next_execution = fst created;
                         s4 = snd created;
                         run' = run\<lparr>r_current_checkpoint_id := Some next_checkpoint_id,
                                    r_current_checkpoint_position := Some (current_position + 1)\<rparr>;
                         s5 = save_run run' s4;
                         next_execution' =
                           (if p_auto_advance pipeline then
                              (if \<not> dict_get (cd_requires_approval_to_start next_checkpoint_def) False
                               then next_execution\<lparr>e_status := in_progress,
                                                   e_started_at := Some now\<rparr>
                               else next_execution)
                            else next_execution\<lparr>e_status := waiting_approval_to_start\<rparr>);
                         s6 = save_execution next_execution' s5
                     in (Inr \<lparr>cr_execution = execution',
                              cr_promoted_artifacts = promoted_artifacts,
                              cr_next_checkpoint_id = Some next_checkpoint_id,
                              cr_next_execution_id = Some (e_execution_id next_execution'),
                              cr_run_status = r_status run'\<rparr>, s6))))
         else
           (let run' = run\<lparr>r_status := run_completed, r_completed_at := Some now,
                          r_current_checkpoint_id := None,
                          r_current_checkpoint_position := None\<rparr>;
                s3 = save_run run' s2;
                s4 = s3\<lparr>files := delete_temp_execution_directory (files s3)
                               (r_pipeline_id run) (e_execution_id execution')\<rparr>
            in case save_run_info (files s4) (r_pipeline_id run) (r_run_version run)
                      (run_info_final run') of
                 Inl err \<Rightarrow> (Inl err, s4)
               | Inr f' \<Rightarrow>
                   (Inr \<lparr>cr_execution = execution',
                         cr_promoted_artifacts = promoted_artifacts,
                         cr_next_checkpoint_id = None,
                         cr_next_execution_id = None,
                         cr_run_status = r_status run'\<rparr>, s4\<lparr>files := f'\<rparr>)))"

definition complete_checkpoint_and_advance ::
  "datetime \<Rightarrow> uid \<Rightarrow> state \<Rightarrow> checkpoint_execution \<Rightarrow> bool
     \<Rightarrow> (error + completion_result) \<times> state" where
  "complete_checkpoint_and_advance now next_execution_id s execution promote_artifacts =
     (case get_checkpoint_definition s (e_checkpoint_id execution) of
        None \<Rightarrow> (Inl NoResultFound, s)
      | Some checkpoint_def \<Rightarrow>
     (case get_run s (e_run_id execution) of
        None \<Rightarrow> (Inl NoResultFound, s)
      | Some run \<Rightarrow>
     (case get_pipeline s (r_pipeline_id run) of
        None \<Rightarrow> (Inl NoResultFound, s)
      | Some pipeline \<Rightarrow>
          (let done = mark_completed now s execution run checkpoint_def promote_artifacts
           in advance_or_finish now next_execution_id (fst done)
                (execution\<lparr>e_status := completed, e_completed_at := Some now\<rparr>)
                run pipeline (snd done)))))"

definition approve_complete ::
  "datetime \<Rightarrow> uid \<Rightarrow> state \<Rightarrow> uid \<Rightarrow> bool \<Rightarrow> (error + completion_result) \<times> state" where
  "approve_complete now next_execution_id s execution_id promote_artifacts =
     (case get_execution s execution_id of
        None \<Rightarrow> (Inl (ExecutionNotFound execution_id), s)
      | Some execution \<Rightarrow>
          if e_status execution \<noteq> waiting_approval_to_complete
          then (Inl (InvalidStateTransition (e_status execution) waiting_approval_to_complete), s)
          else complete_checkpoint_and_advance now next_execution_id s execution
                 promote_artifacts)"

text \<open>At the revision limit the \<open>failed\<close> status, \<open>failed_at\<close> and the interaction are
  flushed and the error is raised: the result carries them as pending writes of the
  session, which \<open>get_db\<close> then rolls back.\<close>

definition request_revision ::
  "datetime \<Rightarrow> state \<Rightarrow> uid \<Rightarrow> string \<Rightarrow> (error + checkpoint_execution) \<times> state" where
  "request_revision now s execution_id feedback =
     (case get_execution s execution_id of
        None \<Rightarrow> (Inl (ExecutionNotFound execution_id), s)
      | Some execution \<Rightarrow>
          if e_status execution \<noteq> waiting_approval_to_complete
          then (Inl (InvalidStateTransition (e_status execution) waiting_approval_to_complete), s)
          else if e_revision_iteration execution \<ge> e_max_revision_iterations execution then
            (let execution' = execution\<lparr>e_status := failed, e_failed_at := Some now\<rparr>;
                 interaction = \<lparr>hi_execution_id = execution_id, hi_timestamp = now,
                                hi_interaction_type = revision_request,
                                hi_user_input = Some feedback,
                                hi_system_response =
                                  Some (''Max revision iterations (''
                                        @ str_int (e_max_revision_iterations execution)
                                        @ '') exceeded. Checkpoint failed.'')\<rparr>
             in (Inl (MaxRevisionsExceeded (e_max_revision_iterations execution)),
                 add_interaction interaction (save_execution execution' s)))
          else
            (let execution' = execution\<lparr>e_revision_iteration := e_revision_iteration execution + 1,
                                         e_status := in_progress\<rparr>;
                 interaction = \<lparr>hi_execution_id = execution_id, hi_timestamp = now,
                                hi_interaction_type = revision_request,
                                hi_user_input = Some feedback,
                                hi_system_response =
                                  Some (''Revision #''
                                        @ str_int (e_revision_iteration execution')
                                        @ '' requested. Status reset to in_progress.'')\<rparr>
             in (Inr execution', add_interaction interaction (save_execution execution' s))))"

text \<open>A submitted form is given by its serialisations: \<^verbatim>\<open>json.dumps(form_data)\<close>,
  \<^verbatim>\<open>json.dumps(form_data, indent=2)\<close> and the \<^verbatim>\<open>str\<close> of each key and value in
  dictionary order.\<close>

record form_data =
  fd_json :: string
  fd_json_indent :: string
  fd_items :: "(string \<times> string) list"

definition form_markdown :: "form_data \<Rightarrow> string" where
  "form_markdown fd =
     foldl (\<lambda>content (key, v). content @ ''**'' @ key @ ''**: '' @ v @ [CHR 0x0A, CHR 0x0A])
       (''# Form Data'' @ [CHR 0x0A, CHR 0x0A]) (fd_items fd)"

record created_artifact =
  ca_artifact_id :: uid
  ca_artifact_name :: string
  ca_file_path :: path
  ca_format :: string
  ca_is_revision :: bool

definition scalar_one_or_none :: "'a list \<Rightarrow> error + 'a option" where
  "scalar_one_or_none rows =
     (case rows of [] \<Rightarrow> Inr None | [x] \<Rightarrow> Inr (Some x) | _ \<Rightarrow> Inl MultipleResultsFound)"

definition submit_form_data ::
  "datetime \<Rightarrow> uid \<Rightarrow> uid \<Rightarrow> uid \<Rightarrow> state \<Rightarrow> uid \<Rightarrow> form_data
     \<Rightarrow> (error + checkpoint_execution \<times> created_artifact list) \<times> state" where
  "submit_form_data now new_artifact_id new_artifact_record_id next_execution_id s
       execution_id form =
     (case get_execution s execution_id of
        None \<Rightarrow> (Inl (ExecutionNotFound execution_id), s)
      | Some execution \<Rightarrow>
     if e_status execution \<noteq> in_progress
     then (Inl (InvalidStateTransition (e_status execution) in_progress), s)
     else
     (case get_checkpoint_definition s (e_checkpoint_id execution) of
        None \<Rightarrow> (Inl NoResultFound, s)
      | Some checkpoint_def \<Rightarrow>
     (case get_run s (e_run_id execution) of
        None \<Rightarrow> (Inl NoResultFound, s)
      | Some run \<Rightarrow>
       (let staging_dir = e_temp_workspace_path execution @ [''artifacts_staging''];
            interaction = \<lparr>hi_execution_id = execution_id, hi_timestamp = now,
                           hi_interaction_type = script_input,
                           hi_user_input = Some (fd_json form),
                           hi_system_response = Some ''Form data submitted successfully.''\<rparr>;
            s1 = add_interaction interaction (s\<lparr>files := mkdir_parents (files s) staging_dir\<rparr>);
            saved =
              (if dict_get (cd_save_as_artifact checkpoint_def) False then
                 (let artifact_name = dict_get (cd_artifact_name checkpoint_def) ''form_data'';
                      artifact_format = dict_get (cd_artifact_format checkpoint_def) ''json''
                  in case scalar_one_or_none
                            (filter (\<lambda>a. a_execution_id a = execution_id
                                          \<and> a_artifact_name a = artifact_name) (artifacts s1)) of
                       Inl err \<Rightarrow> Inl err
                     | Inr existing_artifact \<Rightarrow>
                        (let content = (if artifact_format = ''json'' then fd_json_indent form
                                        else form_markdown form);
                             artifact_id = (case existing_artifact of
                                              Some a \<Rightarrow> a_artifact_id a
                                            | None \<Rightarrow> new_artifact_id);
                             artifact_file = staging_dir
                               @ [artifact_name @ ''_'' @ artifact_id @ ''.'' @ artifact_format];
                             s2 = s1\<lparr>files := write_file (files s1) artifact_file content\<rparr>;
                             s3 = (case existing_artifact of
                                     Some a \<Rightarrow>
                                       save_artifact (a\<lparr>a_file_path := artifact_file,
                                                        a_size_bytes := Some (length content),
                                                        a_format := artifact_format\<rparr>) s2
                                   | None \<Rightarrow>
                                       s2\<lparr>artifacts := artifacts s2 @
                                          [\<lparr>a_artifact_record_id = new_artifact_record_id,
                                            a_execution_id = execution_id,
                                            a_artifact_id = artifact_id,
                                            a_artifact_name = artifact_name,
                                            a_file_path = artifact_file,
                                            a_format = artifact_format,
                                            a_size_bytes = Some (length content),
                                            a_created_at = now,
                                            a_promoted_to_permanent_at = None\<rparr>]\<rparr>)
                         in Inr (s3, [\<lparr>ca_artifact_id = artifact_id,
                                       ca_artifact_name = artifact_name,
                                       ca_file_path = artifact_file,
                                       ca_format = artifact_format,
                                       ca_is_revision = (existing_artifact \<noteq> None)\<rparr>])))
               else Inr (s1, []))
        in case saved of
             Inl err \<Rightarrow> (Inl err, s1)
           | Inr (s4, artifacts_created) \<Rightarrow>
               if dict_get (cd_requires_approval_to_complete checkpoint_def) False then
                 (let execution' = execution\<lparr>e_status := waiting_approval_to_complete\<rparr>
                  in (Inr (execution', artifacts_created), save_execution execution' s4))
               else
                 (case complete_checkpoint_and_advance now next_execution_id s4 execution True of
                    (Inl err, s5) \<Rightarrow> (Inl err, s5)
                  | (Inr result, s5) \<Rightarrow> (Inr (cr_execution result, artifacts_created), s5))))))"

section \<open>The execution routes\<close>

text \<open>\<^verbatim>\<open>POST /executions/{id}/approve-complete\<close> and \<^verbatim>\<open>.../request-revision\<close>: the
  route calls the service on the session of the request; a \<^verbatim>\<open>ValueError\<close> becomes an
  \<^verbatim>\<open>HTTPException\<close>, which leaves through \<open>get_db\<close>.\<close>

definition post_approve_complete ::
  "datetime \<Rightarrow> uid \<Rightarrow> state \<Rightarrow> uid \<Rightarrow> bool \<Rightarrow> (error + completion_result) \<times> state" where
  "post_approve_complete now next_execution_id s execution_id promote_artifacts =
     get_db (\<lambda>session. approve_complete now next_execution_id session execution_id
                          promote_artifacts) s"

definition post_request_revision ::
  "datetime \<Rightarrow> state \<Rightarrow> uid \<Rightarrow> string \<Rightarrow> (error + checkpoint_execution) \<times> state" where
  "post_request_revision now s execution_id feedback =
     get_db (\<lambda>session. request_revision now session execution_id feedback) s"

section \<open>RunService\<close>

definition order_by_desc :: "('a \<Rightarrow> int) \<Rightarrow> 'a list \<Rightarrow> 'a list" where
  "order_by_desc k rows = sort_key (\<lambda>x. - k x) rows"

definition runs_of_pipeline :: "state \<Rightarrow> uid \<Rightarrow> pipeline_run list" where
  "runs_of_pipeline s pid = filter (\<lambda>r. r_pipeline_id r = pid) (pipeline_runs s)"

definition get_latest_valid_run :: "state \<Rightarrow> uid \<Rightarrow> pipeline_run option" where
  "get_latest_valid_run s pid =
     (case order_by_desc r_run_version (runs_of_pipeline s pid) of
        [] \<Rightarrow> None | r # _ \<Rightarrow> Some r)"

definition sql_max :: "int list \<Rightarrow> int option" where
  "sql_max vs = (case vs of [] \<Rightarrow> None | v # rest \<Rightarrow> Some (fold max rest v))"

definition get_next_run_version :: "state \<Rightarrow> uid \<Rightarrow> int" where
  "get_next_run_version s pid =
     (let max_version = sql_max (map r_run_version (runs_of_pipeline s pid))
      in (case max_version of None \<Rightarrow> 0 | Some v \<Rightarrow> if v = 0 then 0 else v) + 1)"

definition run_info_created :: "pipeline_run \<Rightarrow> (string \<times> string option) list" where
  "run_info_created run =
     [(''run_id'', Some (r_run_id run)),
      (''pipeline_id'', Some (r_pipeline_id run)),
      (''run_version'', Some (str_int (r_run_version run))),
      (''status'', Some (status_name (r_status run))),
      (''created_at'', Some (str_nat (r_created_at run))),
      (''previous_run_id'', r_previous_run_id run),
      (''extends_from_run_version'', map_option str_int (r_extends_from_run_version run))]"

definition truthy :: "string option \<Rightarrow> bool" where
  "truthy v = (case v of None \<Rightarrow> False | Some x \<Rightarrow> x \<noteq> [])"

definition create_run ::
  "datetime \<Rightarrow> uid \<Rightarrow> state \<Rightarrow> uid \<Rightarrow> uid option \<Rightarrow> (error + pipeline_run) \<times> state" where
  "create_run now new_run_id s pipeline_id extends_from_run_id =
     (case get_pipeline s pipeline_id of
        None \<Rightarrow> (Inl (PipelineNotFound pipeline_id), s)
      | Some pipeline \<Rightarrow>
     if p_checkpoint_order pipeline = [] then (Inl PipelineHasNoCheckpoints, s)
     else
     (case (if truthy extends_from_run_id then
              (case get_run s (the extends_from_run_id) of
                 None \<Rightarrow> Inl (RunNotFound (the extends_from_run_id))
               | Some previous_run \<Rightarrow>
                   if r_pipeline_id previous_run \<noteq> pipeline_id
                   then Inl (RunNotInPipeline (the extends_from_run_id) pipeline_id)
                   else Inr (Some previous_run))
            else Inr (get_latest_valid_run s pipeline_id)) of
        Inl err \<Rightarrow> (Inl err, s)
      | Inr previous_run \<Rightarrow>
         (let run_version = get_next_run_version s pipeline_id;
              run = \<lparr>r_run_id = new_run_id,
                     r_pipeline_id = pipeline_id,
                     r_run_version = run_version,
                     r_status = run_not_started,
                     r_current_checkpoint_id = None,
                     r_current_checkpoint_position = None,
                     r_previous_run_id = map_option r_run_id previous_run,
                     r_extends_from_run_version = map_option r_run_version previous_run,
                     r_created_at = now,
                     r_started_at = None,
                     r_completed_at = None\<rparr>;
              s1 = s\<lparr>pipeline_runs := pipeline_runs s @ [run]\<rparr>;
              s2 = s1\<lparr>files := create_run_directory (files s1) pipeline_id run_version\<rparr>
          in case save_run_info (files s2) pipeline_id run_version (run_info_created run) of
               Inl err \<Rightarrow> (Inl err, s2)
             | Inr f' \<Rightarrow> (Inr run, s2\<lparr>files := f'\<rparr>))))"

definition start_run ::
  "datetime \<Rightarrow> uid \<Rightarrow> state \<Rightarrow> uid \<Rightarrow> (error + pipeline_run) \<times> state" where
  "start_run now new_execution_id s run_id =
     (case get_run s run_id of
        None \<Rightarrow> (Inl (RunNotFound run_id), s)
      | Some run \<Rightarrow>
     if r_status run \<noteq> run_not_started then (Inl (RunAlreadyStarted (r_status run)), s)
     else
     (case get_pipeline s (r_pipeline_id run) of
        None \<Rightarrow> (Inl NoResultFound, s)
      | Some pipeline \<Rightarrow>
     (case p_checkpoint_order pipeline of
        [] \<Rightarrow> (Inl PipelineHasNoCheckpoints, s)
      | first_checkpoint_id # _ \<Rightarrow>
     (case get_checkpoint_definition s first_checkpoint_id of
        None \<Rightarrow> (Inl (FirstCheckpointNotFound first_checkpoint_id), s)
      | Some checkpoint_def \<Rightarrow>
         (let (execution, s1) =
                create_checkpoint_execution now new_execution_id s run checkpoint_def 0;
              run' = run\<lparr>r_status := run_in_progress,
                         r_current_checkpoint_id := Some (e_checkpoint_id execution),
                         r_current_checkpoint_position := Some 0,
                         r_started_at := Some now\<rparr>;
              s2 = save_run run' s1
          in (Inr run', s2\<lparr>files := update_latest_symlink (files s2) (r_pipeline_id run)
                                       (r_run_version run)\<rparr>))))))"

section \<open>RollbackService\<close>

definition get_checkpoint_at_position :: "state \<Rightarrow> uid \<Rightarrow> int \<Rightarrow> checkpoint_definition option" where
  "get_checkpoint_at_position s pid position =
     (case get_pipeline s pid of
        None \<Rightarrow> None
      | Some pipeline \<Rightarrow>
          (let checkpoints = List.map_filter (get_checkpoint_definition s)
                               (p_checkpoint_order pipeline)
           in if 0 \<le> position \<and> position < int (length checkpoints)
              then Some (checkpoints ! nat position) else None))"

definition archive_artifact :: "filesystem \<Rightarrow> artifact \<Rightarrow> path \<Rightarrow> int \<Rightarrow> path \<times> filesystem" where
  "archive_artifact f artifact archive_base_path run_version =
     (let original_path = a_file_path artifact
      in if \<not> path_exists f original_path
         then (archive_base_path @ [''missing'']
                 @ (if path_name original_path = [] then [] else [path_name original_path]), f)
         else
           (let archived_path = archive_base_path @ [''artifacts''];
                f1 = mkdir_parents f archived_path;
                archived_filename = a_artifact_name artifact @ ''_'' @ a_artifact_id artifact
                                      @ ''_v'' @ str_int run_version @ path_suffix original_path;
                final_path = archived_path @ [archived_filename]
            in (final_path, copy2 f1 original_path final_path)))"

record rollback_acc =
  acc_state :: state
  acc_archived_artifacts :: "archived_artifact list"
  acc_deleted_executions :: "uid list"
  acc_deleted_runs :: "(uid \<times> int) list"

definition archive_artifact_step :: "uid \<Rightarrow> path \<Rightarrow> int \<Rightarrow> rollback_acc \<Rightarrow> artifact \<Rightarrow> rollback_acc" where
  "archive_artifact_step rollback_id archive_dir run_version acc artifact =
     (let s = acc_state acc;
          (archived_path, f') =
             archive_artifact (files s) artifact (archive_dir @ [''archived_data'']) run_version;
          entry = \<lparr>aa_artifact_record_id = a_artifact_record_id artifact,
                   aa_artifact_id = a_artifact_id artifact,
                   aa_artifact_name = a_artifact_name artifact,
                   aa_original_path = a_file_path artifact,
                   aa_archived_path = archived_path,
                   aa_size_bytes = a_size_bytes artifact\<rparr>;
          archived_item = \<lparr>ai_rollback_id = rollback_id,
                           ai_item_type = item_artifact,
                           ai_item_id = a_artifact_record_id artifact,
                           ai_original_path = a_file_path artifact,
                           ai_archived_path = archived_path,
                           ai_size_bytes = a_size_bytes artifact\<rparr>
      in acc\<lparr>acc_state := s\<lparr>files := f', archived_items := archived_items s @ [archived_item]\<rparr>,
             acc_archived_artifacts := acc_archived_artifacts acc @ [entry]\<rparr>)"

text \<open>One pass of the loop body up to, and without, \<^verbatim>\<open>session.delete(execution)\<close>.\<close>

definition archive_execution ::
  "uid \<Rightarrow> uid \<Rightarrow> path \<Rightarrow> int \<Rightarrow> rollback_acc \<Rightarrow> checkpoint_execution \<Rightarrow> rollback_acc" where
  "archive_execution rollback_id pid archive_dir run_version acc execution =
     (let acc1 = acc\<lparr>acc_deleted_executions :=
                       acc_deleted_executions acc @ [e_execution_id execution]\<rparr>;
          acc2 = foldl (archive_artifact_step rollback_id archive_dir run_version) acc1
                   (artifacts_of (acc_state acc1) (e_execution_id execution));
          s2 = acc_state acc2;
          temp_path = joinpath (base_path pid) (e_temp_workspace_path execution);
          f3 = (if e_temp_workspace_path execution \<noteq> [] \<and> path_exists (files s2) temp_path
                then rmtree (files s2) temp_path else files s2);
          archived_exec_item =
            \<lparr>ai_rollback_id = rollback_id,
             ai_item_type = item_checkpoint_execution,
             ai_item_id = e_execution_id execution,
             ai_original_path = [''execution_'' @ e_execution_id execution],
             ai_archived_path = [''archived_data'', ''execution_'' @ e_execution_id execution],
             ai_size_bytes = Some 0\<rparr>
      in acc2\<lparr>acc_state := s2\<lparr>files := f3,
                                 archived_items := archived_items s2 @ [archived_exec_item]\<rparr>\<rparr>)"

text \<open>\<^verbatim>\<open>session.delete(execution)\<close>: the row goes by primary key, and with it (cascade)
  its artifacts, human interactions and events.\<close>

definition delete_execution :: "state \<Rightarrow> checkpoint_execution \<Rightarrow> state" where
  "delete_execution s execution =
     s\<lparr>checkpoint_executions :=
         filter (\<lambda>x. e_execution_id x \<noteq> e_execution_id execution) (checkpoint_executions s),
       artifacts := filter (\<lambda>a. a_execution_id a \<noteq> e_execution_id execution) (artifacts s),
       human_interactions :=
         filter (\<lambda>h. hi_execution_id h \<noteq> e_execution_id execution) (human_interactions s),
       events := filter (\<lambda>v. ev_execution_id v \<noteq> Some (e_execution_id execution)) (events s)\<rparr>"

definition rollback_execution ::
  "uid \<Rightarrow> uid \<Rightarrow> path \<Rightarrow> int \<Rightarrow> rollback_acc \<Rightarrow> checkpoint_execution \<Rightarrow> rollback_acc" where
  "rollback_execution rollback_id pid archive_dir run_version acc execution =
     (let acc' = archive_execution rollback_id pid archive_dir run_version acc execution
      in acc'\<lparr>acc_state := delete_execution (acc_state acc') execution\<rparr>)"

record rollback_result =
  rr_rollback_id :: "uid option"
  rr_deleted_executions :: "uid list"
  rr_deleted_runs :: "(uid \<times> int) list"
  rr_archived_artifacts :: "archived_artifact list"
  rr_target_checkpoint_position :: "int option"
  rr_target_run_version :: "int option"
  rr_archive_location :: "path option"
  rr_run_status :: "run_status option"
  rr_message :: "string option"

definition create_rollback_event :: "datetime \<Rightarrow> uid \<Rightarrow> uid \<Rightarrow> uid \<Rightarrow> uid \<Rightarrow> string \<Rightarrow> state \<Rightarrow> state" where
  "create_rollback_event now pid rollback_id run_id target_checkpoint_id description s =
     s\<lparr>events := events s @
         [\<lparr>ev_event_type = ''rollback_initiated'',
           ev_pipeline_id = Some pid,
           ev_run_id = Some run_id,
           ev_execution_id = None,
           ev_checkpoint_id = Some target_checkpoint_id,
           ev_rollback_id = Some rollback_id,
           ev_timestamp = now,
           ev_description = description\<rparr>]\<rparr>"

text \<open>The accumulators at the start of either rollback loop, the archive directory
  made.\<close>

definition rollback_start :: "datetime \<Rightarrow> uid \<Rightarrow> state \<Rightarrow> uid \<Rightarrow> rollback_acc" where
  "rollback_start now rollback_id s pid =
     \<lparr>acc_state = s\<lparr>files := create_rollback_directory (files s) pid rollback_id now\<rparr>,
      acc_archived_artifacts = [], acc_deleted_executions = [], acc_deleted_runs = []\<rparr>"



text \<open>One pass of the run loop up to, and without, \<^verbatim>\<open>session.delete(run)\<close>: first
  the run's executions are archived and deleted, then the run directory is copied.
  \<^verbatim>\<open>shutil.copytree\<close> raises \<^verbatim>\<open>FileExistsError\<close> when the destination exists.\<close>

definition archive_run_executions ::
  "uid \<Rightarrow> uid \<Rightarrow> path \<Rightarrow> rollback_acc \<Rightarrow> pipeline_run \<Rightarrow> rollback_acc" where
  "archive_run_executions rollback_id pid archive_dir acc run =
     (let acc1 = acc\<lparr>acc_deleted_runs :=
                       acc_deleted_runs acc @ [(r_run_id run, r_run_version run)]\<rparr>;
          executions = filter (\<lambda>e. e_run_id e = r_run_id run)
                         (checkpoint_executions (acc_state acc1))
      in foldl (rollback_execution rollback_id pid archive_dir (r_run_version run))
           acc1 executions)"

definition archive_run ::
  "uid \<Rightarrow> uid \<Rightarrow> path \<Rightarrow> rollback_acc \<Rightarrow> pipeline_run \<Rightarrow> error option \<times> rollback_acc" where
  "archive_run rollback_id pid archive_dir acc run =
     (let acc2 = archive_run_executions rollback_id pid archive_dir acc run;
          s2 = acc_state acc2;
          run_dir = get_run_directory pid (r_run_version run)
      in if path_exists (files s2) run_dir then
           (let archived_run_dir =
                  archive_dir @ [''archived_data'', ''v'' @ str_int (r_run_version run)]
            in if path_exists (files s2) archived_run_dir
               then (Some (FileExistsError archived_run_dir), acc2)
               else
                 (let archived_run_item =
                        \<lparr>ai_rollback_id = rollback_id,
                         ai_item_type = item_run,
                         ai_item_id = r_run_id run,
                         ai_original_path = run_dir,
                         ai_archived_path = archived_run_dir,
                         ai_size_bytes = Some 0\<rparr>
                  in (None, acc2\<lparr>acc_state :=
                        s2\<lparr>files := copytree (files s2) run_dir archived_run_dir,
                           archived_items := archived_items s2 @ [archived_run_item]\<rparr>\<rparr>)))
         else (None, acc2))"

text \<open>\<^verbatim>\<open>session.delete(run)\<close>: the row goes by primary key, and with it (cascade) its
  executions with their dependants, the rollback events it is the source of with
  their archived items, and its events.\<close>

definition delete_run :: "state \<Rightarrow> pipeline_run \<Rightarrow> state" where
  "delete_run s run =
     (let rid = r_run_id run;
          eids = map e_execution_id (filter (\<lambda>e. e_run_id e = rid) (checkpoint_executions s));
          rbids = map rb_rollback_id (filter (\<lambda>b. rb_source_run_id b = rid) (rollback_events s))
      in s\<lparr>pipeline_runs := filter (\<lambda>r. r_run_id r \<noteq> rid) (pipeline_runs s),
           checkpoint_executions := filter (\<lambda>e. e_run_id e \<noteq> rid) (checkpoint_executions s),
           artifacts := filter (\<lambda>a. a_execution_id a \<notin> set eids) (artifacts s),
           human_interactions := filter (\<lambda>h. hi_execution_id h \<notin> set eids) (human_interactions s),
           rollback_events := filter (\<lambda>b. rb_source_run_id b \<noteq> rid) (rollback_events s),
           archived_items := filter (\<lambda>i. ai_rollback_id i \<notin> set rbids) (archived_items s),
           events := filter (\<lambda>v. ev_run_id v \<noteq> Some rid
                                 \<and> (case ev_execution_id v of None \<Rightarrow> True
                                      | Some x \<Rightarrow> x \<notin> set eids)) (events s)\<rparr>)"

fun rollback_runs ::
  "uid \<Rightarrow> uid \<Rightarrow> path \<Rightarrow> rollback_acc \<Rightarrow> pipeline_run list \<Rightarrow> error option \<times> rollback_acc" where
  "rollback_runs rollback_id pid archive_dir acc [] = (None, acc)"
| "rollback_runs rollback_id pid archive_dir acc (run # rest) =
     (case archive_run rollback_id pid archive_dir acc run of
        (Some err, acc') \<Rightarrow> (Some err, acc')
      | (None, acc') \<Rightarrow>
          rollback_runs rollback_id pid archive_dir
            (acc'\<lparr>acc_state := delete_run (acc_state acc') run\<rparr>) rest)"

definition runs_to_delete :: "state \<Rightarrow> uid \<Rightarrow> pipeline_run \<Rightarrow> pipeline_run \<Rightarrow> pipeline_run list" where
  "runs_to_delete s pid current_run target_run =
     (let newer = order_by_desc r_run_version
                    (filter (\<lambda>r. r_pipeline_id r = pid
                                  \<and> r_run_version r > r_run_version target_run)
                       (pipeline_runs s))
      in if r_run_version current_run > r_run_version target_run
            \<and> r_run_id current_run \<notin> set (map r_run_id newer)
         then current_run # newer else newer)"

definition run_level_rollback ::
  "datetime \<Rightarrow> uid \<Rightarrow> state \<Rightarrow> uid \<Rightarrow> uid \<Rightarrow> uid \<Rightarrow> int \<Rightarrow> string option
     \<Rightarrow> (error + rollback_result) \<times> state" where
  "run_level_rollback now rollback_id s pid current_run_id target_run_id
       target_checkpoint_position user_reason =
     (case get_run s current_run_id of
        None \<Rightarrow> (Inl (RunNotFound current_run_id), s)
      | Some current_run \<Rightarrow>
     (case get_run s target_run_id of
        None \<Rightarrow> (Inl (RunNotFound target_run_id), s)
      | Some target_run \<Rightarrow>
     if r_pipeline_id current_run \<noteq> pid \<or> r_pipeline_id target_run \<noteq> pid
     then (Inl (RunNotInPipeline current_run_id pid), s)
     else
     (case get_checkpoint_at_position s pid target_checkpoint_position of
        None \<Rightarrow> (Inl (NoCheckpointAtPosition target_checkpoint_position), s)
      | Some target_checkpoint \<Rightarrow>
       (let victims = runs_to_delete s pid current_run target_run
        in if victims = [] then
             (Inr \<lparr>rr_rollback_id = None, rr_deleted_executions = [], rr_deleted_runs = [],
                   rr_archived_artifacts = [], rr_target_checkpoint_position = None,
                   rr_target_run_version = None, rr_archive_location = None,
                   rr_run_status = None, rr_message = Some ''No runs to delete''\<rparr>, s)
           else
             (let archive_dir = rollback_directory pid rollback_id now
              in case rollback_runs rollback_id pid archive_dir
                        (rollback_start now rollback_id s pid) victims of
                   (Some err, acc) \<Rightarrow> (Inl err, acc_state acc)
                 | (None, acc) \<Rightarrow>
                    (let s2 = acc_state acc;
                         rollback_event =
                           \<lparr>rb_rollback_id = rollback_id,
                            rb_source_run_id = current_run_id,
                            rb_source_run_version = r_run_version current_run,
                            rb_rollback_type = run_level,
                            rb_target_run_id = Some target_run_id,
                            rb_target_checkpoint_id = Some (cd_checkpoint_id target_checkpoint),
                            rb_target_checkpoint_position = Some target_checkpoint_position,
                            rb_archive_location = archive_dir,
                            rb_triggered_by = ''user_request'',
                            rb_user_reason = user_reason,
                            rb_deleted_runs = acc_deleted_runs acc,
                            rb_deleted_checkpoint_executions =
                              map (\<lambda>exec_id. (exec_id, None)) (acc_deleted_executions acc),
                            rb_archived_artifacts = acc_archived_artifacts acc,
                            rb_created_at = now\<rparr>;
                         s3 = s2\<lparr>rollback_events := rollback_events s2 @ [rollback_event]\<rparr>;
                         target1 = (if r_status target_run = run_completed
                                    then target_run\<lparr>r_status := run_in_progress,
                                                    r_completed_at := None\<rparr>
                                    else target_run);
                         target2 = target1\<lparr>r_current_checkpoint_id :=
                                              Some (cd_checkpoint_id target_checkpoint),
                                            r_current_checkpoint_position :=
                                              Some target_checkpoint_position\<rparr>;
                         s4 = save_run target2 s3;
                         s5 = s4\<lparr>files := update_latest_symlink (files s4) pid
                                              (r_run_version target_run)\<rparr>;
                         s6 = create_rollback_event now pid rollback_id target_run_id
                                (cd_checkpoint_id target_checkpoint)
                                (''Run-level rollback to v'' @ str_int (r_run_version target_run)
                                   @ '' checkpoint '' @ str_int target_checkpoint_position) s5
                     in (Inr \<lparr>rr_rollback_id = Some rollback_id,
                              rr_deleted_executions = [],
                              rr_deleted_runs = acc_deleted_runs acc,
                              rr_archived_artifacts = acc_archived_artifacts acc,
                              rr_target_checkpoint_position = Some target_checkpoint_position,
                              rr_target_run_version = Some (r_run_version target_run),
                              rr_archive_location = Some archive_dir,
                              rr_run_status = None,
                              rr_message = None\<rparr>, s6)))))))"

text \<open>SQL \<^verbatim>\<open>LIMIT\<close>: a negative bound is no bound (SQLite).\<close>

definition sql_limit :: "int \<Rightarrow> 'a list \<Rightarrow> 'a list" where
  "sql_limit n rows = (if n < 0 then rows else take (nat n) rows)"

record rollback_summary =
  rs_rollback_id :: uid
  rs_rollback_type :: rollback_type
  rs_source_run_version :: int
  rs_target_run_id :: "uid option"
  rs_target_checkpoint_position :: "int option"
  rs_triggered_by :: string
  rs_user_reason :: "string option"
  rs_created_at :: datetime
  rs_archive_location :: path

definition summary_of :: "rollback_event \<Rightarrow> rollback_summary" where
  "summary_of event =
     \<lparr>rs_rollback_id = rb_rollback_id event,
      rs_rollback_type = rb_rollback_type event,
      rs_source_run_version = rb_source_run_version event,
      rs_target_run_id = rb_target_run_id event,
      rs_target_checkpoint_position = rb_target_checkpoint_position event,
      rs_triggered_by = rb_triggered_by event,
      rs_user_reason = rb_user_reason event,
      rs_created_at = rb_created_at event,
      rs_archive_location = rb_archive_location event\<rparr>"

definition rollback_history_rows :: "state \<Rightarrow> uid \<Rightarrow> uid option \<Rightarrow> int \<Rightarrow> rollback_event list" where
  "rollback_history_rows s pid run_id limit =
     (let query = filter (\<lambda>b. rb_source_run_id b = pid) (rollback_events s);
          query' = (if truthy run_id then filter (\<lambda>b. rb_source_run_id b = the run_id) query
                    else query)
      in sql_limit limit (order_by_desc (\<lambda>b. int (rb_created_at b)) query'))"

definition get_rollback_history :: "state \<Rightarrow> uid \<Rightarrow> uid option \<Rightarrow> int \<Rightarrow> rollback_summary list" where
  "get_rollback_history s pid run_id limit = map summary_of (rollback_history_rows s pid run_id limit)"

section \<open>Concrete stores\<close>

definition empty_state :: state where
  "empty_state = \<lparr>pipelines = [], checkpoint_definitions = [], pipeline_runs = [],
     checkpoint_executions = [], artifacts = [], human_interactions = [],
     rollback_events = [], archived_items = [], events = [], files = Map.empty\<rparr>"

definition demo_pipeline :: pipeline where
  "demo_pipeline = \<lparr>p_pipeline_id = ''p1'', p_checkpoint_order = [''c0'', ''c1'', ''c2''],
     p_auto_advance = True\<rparr>"

definition demo_checkpoint :: "uid \<Rightarrow> string \<Rightarrow> bool \<Rightarrow> bool \<Rightarrow> checkpoint_definition" where
  "demo_checkpoint cid name needs_start needs_complete =
     \<lparr>cd_checkpoint_id = cid, cd_pipeline_id = ''p1'', cd_checkpoint_name = name,
      cd_max_auto_retries = None, cd_save_as_artifact = Some True,
      cd_artifact_name = Some ''form'', cd_artifact_format = Some ''json'',
      cd_requires_approval_to_start = Some needs_start,
      cd_requires_approval_to_complete = Some needs_complete,
      cd_max_revision_iterations = Some 1\<rparr>"

definition demo_run :: "uid \<Rightarrow> int \<Rightarrow> run_status \<Rightarrow> int option \<Rightarrow> pipeline_run" where
  "demo_run rid version st pos =
     \<lparr>r_run_id = rid, r_pipeline_id = ''p1'', r_run_version = version, r_status = st,
      r_current_checkpoint_id = None, r_current_checkpoint_position = pos,
      r_previous_run_id = None, r_extends_from_run_version = None,
      r_created_at = 0, r_started_at = Some 1,
      r_completed_at = (if st = run_completed then Some 5 else None)\<rparr>"

definition demo_execution ::
  "uid \<Rightarrow> uid \<Rightarrow> uid \<Rightarrow> int \<Rightarrow> execution_status \<Rightarrow> int \<Rightarrow> checkpoint_execution" where
  "demo_execution eid rid cid pos st revision =
     \<lparr>e_execution_id = eid, e_run_id = rid, e_checkpoint_id = cid,
      e_checkpoint_position = pos, e_status = st, e_attempt_number = 1, e_max_attempts = 1,
      e_revision_iteration = revision, e_max_revision_iterations = 1,
      e_temp_workspace_path = get_temp_execution_directory ''p1'' eid,
      e_permanent_output_path = [],
      e_created_at = 1, e_started_at = Some 1,
      e_completed_at = (if st = completed then Some 2 else None), e_failed_at = None\<rparr>"

definition demo_definitions :: state where
  "demo_definitions = empty_state\<lparr>pipelines := [demo_pipeline],
     checkpoint_definitions := [demo_checkpoint ''c0'' ''intake'' False False,
                                demo_checkpoint ''c1'' ''review'' False True,
                                demo_checkpoint ''c2'' ''publish'' True True]\<rparr>"

definition review_state :: state where
  "review_state = demo_definitions\<lparr>
     pipeline_runs := [demo_run ''r1'' 1 run_in_progress (Some 1)],
     checkpoint_executions :=
       [demo_execution ''e0'' ''r1'' ''c0'' 0 completed 0,
        demo_execution ''e1'' ''r1'' ''c1'' 1 waiting_approval_to_complete 1]\<rparr>"

definition history_state :: state where
  "history_state = review_state\<lparr>rollback_events :=
     [\<lparr>rb_rollback_id = ''b1'', rb_source_run_id = ''r1'', rb_source_run_version = 1,
       rb_rollback_type = checkpoint_level, rb_target_run_id = Some ''r1'',
       rb_target_checkpoint_id = Some ''c1'', rb_target_checkpoint_position = Some 1,
       rb_archive_location = rollback_directory ''p1'' ''b1'' 3,
       rb_triggered_by = ''user_request'', rb_user_reason = None, rb_deleted_runs = [],
       rb_deleted_checkpoint_executions = [(''e2'', Some 0)], rb_archived_artifacts = [],
       rb_created_at = 3\<rparr>]\<rparr>"

definition started_state :: state where
  "started_state = demo_definitions\<lparr>
     pipeline_runs := [demo_run ''r1'' 1 run_in_progress (Some 0)],
     checkpoint_executions := [demo_execution ''e0'' ''r1'' ''c0'' 0 in_progress 0]\<rparr>"




definition demo_artifact :: "uid \<Rightarrow> uid \<Rightarrow> uid \<Rightarrow> string \<Rightarrow> string \<Rightarrow> artifact" where
  "demo_artifact record_id eid aid name fmt =
     \<lparr>a_artifact_record_id = record_id, a_execution_id = eid, a_artifact_id = aid,
      a_artifact_name = name,
      a_file_path = get_artifact_staging_path ''p1'' eid name aid fmt,
      a_format = fmt, a_size_bytes = Some 2, a_created_at = 2,
      a_promoted_to_permanent_at = None\<rparr>"



text \<open>Two runs of the pipeline, the older completed and the newer in progress, each
  with its directory.\<close>

definition two_runs_state :: state where
  "two_runs_state = demo_definitions\<lparr>
     pipeline_runs := [demo_run ''r1'' 1 run_completed None,
                       demo_run ''r2'' 2 run_in_progress (Some 0)],
     checkpoint_executions :=
       [demo_execution ''e0'' ''r1'' ''c0'' 0 completed 0,
        demo_execution ''e1'' ''r1'' ''c1'' 1 completed 0,
        demo_execution ''e2'' ''r1'' ''c2'' 2 completed 0,
        demo_execution ''e3'' ''r2'' ''c0'' 0 in_progress 0],
     artifacts := [demo_artifact ''ar3'' ''e3'' ''a3'' ''form'' ''json''],
     files := [runs_dir ''p1'' \<mapsto> Dir,
               get_run_directory ''p1'' 1 \<mapsto> Dir,
               get_run_directory ''p1'' 2 \<mapsto> Dir,
               get_run_directory ''p1'' 2 @ [''run_info.json''] \<mapsto> File ''v2'',
               get_artifact_staging_path ''p1'' ''e3'' ''form'' ''a3'' ''json'' \<mapsto> File ''{}'']\<rparr>"

text \<open>A store in which the checkpoint order still names \<open>c1\<close> although its definition
  is gone (the order was stored with \<open>c1\<close> twice, which \<open>reorder_checkpoints\<close> accepts
  as it compares sets, and \<open>delete_checkpoint\<close> removed the first occurrence with the
  definition). Execution \<open>e0\<close> at position 0 waits for the completion approval.\<close>

definition dangling_state :: state where
  "dangling_state = empty_state\<lparr>
     pipelines := [demo_pipeline],
     checkpoint_definitions := [demo_checkpoint ''c0'' ''intake'' False True,
                                demo_checkpoint ''c2'' ''publish'' True True],
     pipeline_runs := [demo_run ''r1'' 1 run_in_progress (Some 0)],
     checkpoint_executions :=
       [demo_execution ''e0'' ''r1'' ''c0'' 0 waiting_approval_to_complete 0],
     files := [runs_dir ''p1'' \<mapsto> Dir,
               get_run_directory ''p1'' 1 \<mapsto> Dir,
               get_temp_execution_directory ''p1'' ''e0'' \<mapsto> Dir]\<rparr>"

text \<open>A run at its last checkpoint, the execution there waiting for the completion
  approval, with the run directory and the execution's workspace in place.\<close>

definition closing_state :: state where
  "closing_state = demo_definitions\<lparr>
     pipeline_runs := [demo_run ''r1'' 1 run_in_progress (Some 2)],
     checkpoint_executions :=
       [demo_execution ''e0'' ''r1'' ''c0'' 0 completed 0,
        demo_execution ''e1'' ''r1'' ''c1'' 1 completed 0,
        demo_execution ''e2'' ''r1'' ''c2'' 2 waiting_approval_to_complete 0],
     files := [runs_dir ''p1'' \<mapsto> Dir,
               get_run_directory ''p1'' 1 \<mapsto> Dir,
               get_temp_execution_directory ''p1'' ''e2'' \<mapsto> Dir,
               get_temp_execution_directory ''p1'' ''e2'' @ [''workspace''] \<mapsto> Dir]\<rparr>"



section \<open>Verified properties\<close>

subsection \<open>Lookups by primary key\<close>

lemma find_id_Some:
  "find (\<lambda>x. k x = i) xs = Some y \<Longrightarrow> y \<in> set xs \<and> k y = i"
  by (induction xs) (auto split: if_splits)

lemma find_map_upd:
  assumes "find (\<lambda>x. k x = i) xs = Some y" "k y' = i"
  shows "find (\<lambda>x. k x = i) (map (\<lambda>x. if k x = i then y' else x) xs) = Some y'"
  using assms by (induction xs) (auto split: if_splits)

lemma get_execution_save:
  assumes "get_execution s eid = Some e" "e_execution_id e' = eid"
  shows "get_execution (save_execution e' s) eid = Some e'"
  using assms find_map_upd[of e_execution_id eid "checkpoint_executions s" e e']
  by (simp add: get_execution_def save_execution_def)

lemma get_execution_add_interaction [simp]:
  "get_execution (add_interaction h s) eid = get_execution s eid"
  by (simp add: get_execution_def add_interaction_def)

lemma get_execution_id: "get_execution s eid = Some e \<Longrightarrow> e_execution_id e = eid"
  using find_id_Some[of e_execution_id eid "checkpoint_executions s" e]
  by (simp add: get_execution_def)

lemma get_run_save:
  assumes "get_run s rid = Some r" "r_run_id r' = rid"
  shows "get_run (save_run r' s) rid = Some r'"
  using assms find_map_upd[of r_run_id rid "pipeline_runs s" r r']
  by (simp add: get_run_def save_run_def)

lemma get_run_id: "get_run s rid = Some r \<Longrightarrow> r_run_id r = rid"
  using find_id_Some[of r_run_id rid "pipeline_runs s" r] by (simp add: get_run_def)

lemmas path_defs =
  get_temp_execution_directory_def temp_dir_def base_path_def BASE_PIPELINES_PATH_def
  get_checkpoint_outputs_directory_def get_checkpoint_directory_def get_run_directory_def
  runs_dir_def get_artifact_staging_path_def get_permanent_artifact_path_def

subsection \<open>Revision requests\<close>

lemma session_rollback_same_files:
  "files session = files s \<Longrightarrow> session_rollback s session = s"
  by (simp add: session_rollback_def)

lemma request_revision_files:
  "files (snd (request_revision now s eid fb)) = files s"
  by (simp add: request_revision_def Let_def add_interaction_def save_execution_def
      split: option.splits)

lemma request_revision_at_limit:
  assumes found: "get_execution s eid = Some e"
      and st: "e_status e = waiting_approval_to_complete"
      and lim: "e_max_revision_iterations e \<le> e_revision_iteration e"
  shows "fst (request_revision now s eid fb)
           = Inl (MaxRevisionsExceeded (e_max_revision_iterations e))"
    and "get_execution (snd (request_revision now s eid fb)) eid
           = Some (e\<lparr>e_status := failed, e_failed_at := Some now\<rparr>)"
    and "get_db (\<lambda>session. request_revision now session eid fb) s
           = (Inl (MaxRevisionsExceeded (e_max_revision_iterations e)), s)"
proof -
  have id: "e_execution_id e = eid" using found by (rule get_execution_id)
  show f: "fst (request_revision now s eid fb)
           = Inl (MaxRevisionsExceeded (e_max_revision_iterations e))"
    using found st lim by (simp add: request_revision_def Let_def)
  show "get_execution (snd (request_revision now s eid fb)) eid
           = Some (e\<lparr>e_status := failed, e_failed_at := Some now\<rparr>)"
    using found st lim id
      get_execution_save [OF found, of "e\<lparr>e_status := failed, e_failed_at := Some now\<rparr>"]
    by (simp add: request_revision_def Let_def)
  show "get_db (\<lambda>session. request_revision now session eid fb) s
           = (Inl (MaxRevisionsExceeded (e_max_revision_iterations e)), s)"
    using f session_rollback_same_files [OF request_revision_files [of now s eid fb]]
    by (cases "request_revision now s eid fb") (simp add: get_db_def)
qed

lemma request_revision_below_limit:
  assumes found: "get_execution s eid = Some e"
      and st: "e_status e = waiting_approval_to_complete"
      and lt: "e_revision_iteration e < e_max_revision_iterations e"
  shows "fst (get_db (\<lambda>session. request_revision now session eid fb) s)
           = Inr (e\<lparr>e_revision_iteration := e_revision_iteration e + 1,
                     e_status := in_progress\<rparr>)"
    and "get_execution (snd (get_db (\<lambda>session. request_revision now session eid fb) s)) eid
           = Some (e\<lparr>e_revision_iteration := e_revision_iteration e + 1,
                      e_status := in_progress\<rparr>)"
    and "\<exists>h. human_interactions (snd (get_db (\<lambda>session. request_revision now session eid fb) s))
                 = human_interactions s @ [h]
               \<and> hi_execution_id h = eid \<and> hi_interaction_type h = revision_request
               \<and> hi_user_input h = Some fb"
proof -
  have id: "e_execution_id e = eid" using found by (rule get_execution_id)
  let ?e' = "e\<lparr>e_revision_iteration := e_revision_iteration e + 1, e_status := in_progress\<rparr>"
  have f: "fst (request_revision now s eid fb) = Inr ?e'"
    using found st lt by (simp add: request_revision_def Let_def)
  then have g: "get_db (\<lambda>session. request_revision now session eid fb) s
                  = request_revision now s eid fb"
    by (cases "request_revision now s eid fb") (simp add: get_db_def)
  show "fst (get_db (\<lambda>session. request_revision now session eid fb) s) = Inr ?e'"
    using f g by simp
  show "get_execution (snd (get_db (\<lambda>session. request_revision now session eid fb) s)) eid
          = Some ?e'"
    unfolding g
    using found st lt id get_execution_save [OF found, of ?e']
    by (simp add: request_revision_def Let_def)
  show "\<exists>h. human_interactions (snd (get_db (\<lambda>session. request_revision now session eid fb) s))
                 = human_interactions s @ [h]
               \<and> hi_execution_id h = eid \<and> hi_interaction_type h = revision_request
               \<and> hi_user_input h = Some fb"
    unfolding g
    using found st lt
    by (simp add: request_revision_def Let_def add_interaction_def save_execution_def)
qed

text \<open>
  C3. In \<open>review_state\<close> execution \<open>e1\<close> is \<open>waiting_approval_to_complete\<close> with
  \<open>revision_iteration = max_revision_iterations = 1\<close>. There \<open>request_revision\<close>
  reports the max-revisions-exceeded error and, in its session, has set the execution
  \<open>failed\<close>; the error leaves the request through \<open>get_db\<close>, which rolls the session
  back (\<open>post_request_revision\<close> is the route), so the store after the request is
  the store before it: the execution is still
  \<open>waiting_approval_to_complete\<close> with no \<open>failed_at\<close>, and a following
  \<open>approve_complete\<close> completes it.
\<close>

theorem request_revision_limit_is_rolled_back:
  "map_option e_status (get_execution review_state ''e1'') = Some waiting_approval_to_complete
   \<and> map_option e_revision_iteration (get_execution review_state ''e1'') = Some 1
   \<and> map_option e_max_revision_iterations (get_execution review_state ''e1'') = Some 1
   \<and> fst (request_revision 9 review_state ''e1'' ''redo'') = Inl (MaxRevisionsExceeded 1)
   \<and> map_option e_status
         (get_execution (snd (request_revision 9 review_state ''e1'' ''redo'')) ''e1'')
       = Some failed
   \<and> post_request_revision 9 review_state ''e1'' ''redo''
       = (Inl (MaxRevisionsExceeded 1), review_state)
   \<and> map_option e_status
         (get_execution (snd (post_request_revision 9 review_state ''e1'' ''redo'')) ''e1'')
       = Some waiting_approval_to_complete
   \<and> map_option e_failed_at
         (get_execution (snd (post_request_revision 9 review_state ''e1'' ''redo'')) ''e1'')
       = Some None
   \<and> fst (post_request_revision 10
             (snd (post_request_revision 9 review_state ''e1'' ''redo'')) ''e1'' ''again'')
       = Inl (MaxRevisionsExceeded 1)
   \<and> map_option e_status
         (get_execution
            (snd (post_approve_complete 10 ''e9''
                    (snd (post_request_revision 9 review_state ''e1'' ''redo'')) ''e1'' True))
            ''e1'')
       = Some completed"
proof -
  let ?e = "demo_execution ''e1'' ''r1'' ''c1'' 1 waiting_approval_to_complete 1"
  have f: "get_execution review_state ''e1'' = Some ?e"
    by (simp add: review_state_def get_execution_def demo_execution_def)
  have st: "e_status ?e = waiting_approval_to_complete"
    by (simp add: demo_execution_def)
  have lim: "e_max_revision_iterations ?e \<le> e_revision_iteration ?e"
    by (simp add: demo_execution_def)
  note lim_facts = request_revision_at_limit [OF f st lim]
  have rolled: "post_request_revision now review_state ''e1'' fb
                = (Inl (MaxRevisionsExceeded 1), review_state)" for now fb
    using lim_facts(3) [of now fb] by (simp add: post_request_revision_def demo_execution_def)
  have appr: "map_option e_status
         (get_execution (snd (post_approve_complete 10 ''e9'' review_state ''e1'' True)) ''e1'')
       = Some completed"
    by (simp add: post_approve_complete_def get_db_def approve_complete_def f st
        complete_checkpoint_and_advance_def
        review_state_def demo_definitions_def empty_state_def demo_execution_def
        demo_checkpoint_def demo_run_def demo_pipeline_def get_checkpoint_definition_def
        get_run_def get_pipeline_def get_execution_def mark_completed_def promote_all_def
        artifacts_of_def advance_or_finish_def py_index_def Let_def
        create_checkpoint_execution_def save_execution_def save_run_def add_interaction_def
        dict_get_def split: prod.splits sum.splits)
  show ?thesis
    using f lim_facts(1,2) [of 9 "''redo''"] appr
    by (simp add: rolled demo_execution_def)
qed

subsection \<open>Rollback history\<close>

text \<open>
  C10. Called without a run id, \<open>get_rollback_history\<close> selects the rollback events
  whose \<open>source_run_id\<close> equals the pipeline id; so it returns only such events, and the
  empty list whenever no rollback event has the pipeline id as its source run id.
\<close>

theorem get_rollback_history_pipeline_filter:
  "set (rollback_history_rows s pid None limit)
      \<subseteq> {b \<in> set (rollback_events s). rb_source_run_id b = pid}
   \<and> get_rollback_history s pid None limit
      = map summary_of (sql_limit limit (order_by_desc (\<lambda>b. int (rb_created_at b))
          (filter (\<lambda>b. rb_source_run_id b = pid) (rollback_events s))))
   \<and> ((\<forall>b \<in> set (rollback_events s). rb_source_run_id b \<noteq> pid)
        \<longrightarrow> get_rollback_history s pid None limit = [])"
proof (intro conjI impI)
  have "set (sql_limit limit xs) \<subseteq> set xs" for xs :: "rollback_event list"
    by (auto simp: sql_limit_def dest: in_set_takeD)
  then show "set (rollback_history_rows s pid None limit)
      \<subseteq> {b \<in> set (rollback_events s). rb_source_run_id b = pid}"
    by (fastforce simp: rollback_history_rows_def truthy_def order_by_desc_def)
  show "get_rollback_history s pid None limit
      = map summary_of (sql_limit limit (order_by_desc (\<lambda>b. int (rb_created_at b))
          (filter (\<lambda>b. rb_source_run_id b = pid) (rollback_events s))))"
    by (simp add: get_rollback_history_def rollback_history_rows_def truthy_def)
  assume "\<forall>b \<in> set (rollback_events s). rb_source_run_id b \<noteq> pid"
  then have "filter (\<lambda>b. rb_source_run_id b = pid) (rollback_events s) = []"
    by (simp add: filter_empty_conv)
  then show "get_rollback_history s pid None limit = []"
    by (simp add: get_rollback_history_def rollback_history_rows_def truthy_def
        order_by_desc_def sql_limit_def)
qed

theorem get_rollback_history_pipeline_filter_witness:
  "map rb_source_run_id (rollback_events history_state) = [''r1'']
   \<and> map r_pipeline_id (pipeline_runs history_state) = [''p1'']
   \<and> get_rollback_history history_state ''p1'' None 50 = []"
proof -
  have h: "\<forall>b \<in> set (rollback_events history_state). rb_source_run_id b \<noteq> ''p1''"
    by (simp add: history_state_def)
  have r: "get_rollback_history history_state ''p1'' None 50 = []"
    using get_rollback_history_pipeline_filter [of history_state "''p1''" 50] h by blast
  show ?thesis
    using h r
    by (simp add: history_state_def review_state_def demo_definitions_def empty_state_def
        demo_run_def)
qed

subsection \<open>Operations attempted from a wrong state\<close>

text \<open>
  C7. For an existing execution whose status is not the one the operation requires,
  each of \<open>approve_start\<close> (requires \<open>waiting_approval_to_start\<close>), \<open>submit_form_data\<close>
  (requires \<open>in_progress\<close>), \<open>approve_complete\<close> and \<open>request_revision\<close> (both require
  \<open>waiting_approval_to_complete\<close>) raises an invalid-state error carrying the actual and
  the expected status, and the whole store, so the execution with its status,
  revision counter and timestamps, is left as it was.
\<close>

theorem wrong_state_is_refused_unchanged:
  assumes found: "get_execution s eid = Some e"
  shows "(e_status e \<noteq> waiting_approval_to_start \<longrightarrow>
            approve_start now s eid
              = (Inl (InvalidStateTransition (e_status e) waiting_approval_to_start), s))
       \<and> (e_status e \<noteq> in_progress \<longrightarrow>
            submit_form_data now aid arid nid s eid form
              = (Inl (InvalidStateTransition (e_status e) in_progress), s))
       \<and> (e_status e \<noteq> waiting_approval_to_complete \<longrightarrow>
            approve_complete now nid s eid promote
              = (Inl (InvalidStateTransition (e_status e) waiting_approval_to_complete), s))
       \<and> (e_status e \<noteq> waiting_approval_to_complete \<longrightarrow>
            request_revision now s eid fb
              = (Inl (InvalidStateTransition (e_status e) waiting_approval_to_complete), s))"
  using found
  by (simp add: approve_start_def submit_form_data_def approve_complete_def request_revision_def)

theorem wrong_state_is_refused_unchanged_witness:
  "get_execution review_state ''e0'' = Some (demo_execution ''e0'' ''r1'' ''c0'' 0 completed 0)
   \<and> e_status (demo_execution ''e0'' ''r1'' ''c0'' 0 completed 0) = completed
   \<and> approve_start 9 review_state ''e0''
        = (Inl (InvalidStateTransition completed waiting_approval_to_start), review_state)
   \<and> submit_form_data 9 ''a'' ''ar'' ''e9'' review_state ''e0''
          \<lparr>fd_json = ''{}'', fd_json_indent = ''{}'', fd_items = []\<rparr>
        = (Inl (InvalidStateTransition completed in_progress), review_state)
   \<and> approve_complete 9 ''e9'' review_state ''e0'' True
        = (Inl (InvalidStateTransition completed waiting_approval_to_complete), review_state)
   \<and> request_revision 9 review_state ''e0'' ''redo''
        = (Inl (InvalidStateTransition completed waiting_approval_to_complete), review_state)"
proof -
  let ?e = "demo_execution ''e0'' ''r1'' ''c0'' 0 completed 0"
  have f: "get_execution review_state ''e0'' = Some ?e"
    by (simp add: review_state_def get_execution_def demo_execution_def)
  have st: "e_status ?e = completed" by (simp add: demo_execution_def)
  show ?thesis
    using f st wrong_state_is_refused_unchanged [OF f, of 9 "''a''" "''ar''" "''e9''"
        "\<lparr>fd_json = ''{}'', fd_json_indent = ''{}'', fd_items = []\<rparr>" True "''redo''"]
    by simp
qed

subsection \<open>Run creation\<close>

lemma sql_max_Max: "vs \<noteq> [] \<Longrightarrow> sql_max vs = Some (Max (set vs))"
  by (cases vs) (simp_all add: sql_max_def Max.set_eq_fold [symmetric])

lemma order_by_desc_hd:
  assumes "order_by_desc k rows = r # rest"
  shows "r \<in> set rows \<and> (\<forall>x \<in> set rows. k x \<le> k r)"
proof -
  have s: "set (sort_key (\<lambda>x. - k x) rows) = set rows" by simp
  have "sorted (map (\<lambda>x. - k x) (sort_key (\<lambda>x. - k x) rows))" by (rule sorted_sort_key)
  with assms have "\<forall>x \<in> set rest. - k r \<le> - k x"
    by (simp add: order_by_desc_def)
  moreover from assms s have "set rows = insert r (set rest)"
    by (simp add: order_by_desc_def)
  ultimately show ?thesis by auto
qed

lemma order_by_desc_Nil [simp]: "order_by_desc k rows = [] \<longleftrightarrow> rows = []"
  by (cases rows) (auto simp: order_by_desc_def simp flip: length_0_conv)

lemma get_latest_valid_run_None:
  "runs_of_pipeline s pid = [] \<Longrightarrow> get_latest_valid_run s pid = None"
  by (simp add: get_latest_valid_run_def order_by_desc_def)

lemma get_latest_valid_run_Some:
  assumes "runs_of_pipeline s pid \<noteq> []"
  shows "\<exists>r. get_latest_valid_run s pid = Some r \<and> r \<in> set (runs_of_pipeline s pid)
           \<and> (\<forall>x \<in> set (runs_of_pipeline s pid). r_run_version x \<le> r_run_version r)"
proof (cases "order_by_desc r_run_version (runs_of_pipeline s pid)")
  case Nil
  with assms show ?thesis by simp
next
  case (Cons r rest)
  from order_by_desc_hd[OF Cons] Cons show ?thesis
    by (simp add: get_latest_valid_run_def)
qed

lemma get_next_run_version_Max:
  "get_next_run_version s pid =
     (if runs_of_pipeline s pid = [] then 1
      else Max (set (map r_run_version (runs_of_pipeline s pid))) + 1)"
  by (simp add: get_next_run_version_def sql_max_Max Let_def) (simp add: sql_max_def)

lemma create_run_result:
  assumes p: "get_pipeline s pid = Some p"
      and ok: "create_run now rid s pid ext = (Inr run, session)"
  shows "p_checkpoint_order p \<noteq> []"
    and "\<exists>previous_run.
           (if truthy ext
            then previous_run = get_run s (the ext) \<and> previous_run \<noteq> None
                 \<and> r_pipeline_id (the previous_run) = pid
            else previous_run = get_latest_valid_run s pid)
         \<and> run = \<lparr>r_run_id = rid, r_pipeline_id = pid,
                    r_run_version = get_next_run_version s pid,
                    r_status = run_not_started,
                    r_current_checkpoint_id = None, r_current_checkpoint_position = None,
                    r_previous_run_id = map_option r_run_id previous_run,
                    r_extends_from_run_version = map_option r_run_version previous_run,
                    r_created_at = now, r_started_at = None, r_completed_at = None\<rparr>"
    and "pipeline_runs session = pipeline_runs s @ [run]"
proof -
  show ne: "p_checkpoint_order p \<noteq> []"
    using p ok by (auto simp: create_run_def)
  let ?run = "\<lambda>previous_run. \<lparr>r_run_id = rid, r_pipeline_id = pid,
                    r_run_version = get_next_run_version s pid,
                    r_status = run_not_started,
                    r_current_checkpoint_id = None, r_current_checkpoint_position = None,
                    r_previous_run_id = map_option r_run_id previous_run,
                    r_extends_from_run_version = map_option r_run_version previous_run,
                    r_created_at = now, r_started_at = None, r_completed_at = None\<rparr>"
  have both: "(\<exists>previous_run.
           (if truthy ext
            then previous_run = get_run s (the ext) \<and> previous_run \<noteq> None
                 \<and> r_pipeline_id (the previous_run) = pid
            else previous_run = get_latest_valid_run s pid)
         \<and> run = ?run previous_run)
       \<and> pipeline_runs session = pipeline_runs s @ [run]"
  proof (cases "truthy ext")
    case False
    with p ok ne show ?thesis
      by (auto simp: create_run_def Let_def split: sum.splits)
  next
    case True
    show ?thesis
    proof (cases "get_run s (the ext)")
      case None
      with True p ok ne show ?thesis by (simp add: create_run_def)
    next
      case (Some prev)
      with True p ok ne have same: "r_pipeline_id prev = pid"
        by (auto simp: create_run_def split: if_splits)
      with True Some p ok ne show ?thesis
        by (auto simp: create_run_def Let_def split: sum.splits)
    qed
  qed
  then show "\<exists>previous_run.
           (if truthy ext
            then previous_run = get_run s (the ext) \<and> previous_run \<noteq> None
                 \<and> r_pipeline_id (the previous_run) = pid
            else previous_run = get_latest_valid_run s pid)
         \<and> run = ?run previous_run"
    by blast
  from both show "pipeline_runs session = pipeline_runs s @ [run]" by blast
qed

lemma create_run_returns:
  assumes p: "get_pipeline s pid = Some p"
      and ne: "p_checkpoint_order p \<noteq> []"
      and prev: "truthy ext \<longrightarrow> (\<exists>prev. get_run s (the ext) = Some prev \<and> r_pipeline_id prev = pid)"
      and dir: "files s (get_run_directory pid (get_next_run_version s pid)) \<in> {None, Some Dir}"
  shows "\<exists>run session. create_run now rid s pid ext = (Inr run, session)"
proof -
  let ?v = "get_next_run_version s pid"
  have "save_run_info (create_run_directory (files s) pid ?v) pid ?v kv \<noteq> Inl err" for kv err
    using dir
    by (auto simp: save_run_info_def create_run_directory_def mkdir_parents_def Let_def)
  then show ?thesis
    using p ne prev
    by (auto simp: create_run_def Let_def split: sum.splits option.splits)
qed

text \<open>
  C6. For an existing pipeline, \<open>create_run\<close> fails when the checkpoint order is empty.
  Whenever it returns a run, with or without a run to extend, the run's \<open>run_version\<close>
  is the maximum existing version of the pipeline plus one, or 1 when the pipeline has
  no run, its status is \<open>not_started\<close>, it has no current checkpoint, and it is the one
  row added to the runs. Called without a run to extend, \<open>previous_run_id\<close> and
  \<open>extends_from_run_version\<close> are those of the latest run (null when there is none),
  the latest run being a run of the pipeline with the numerically highest version;
  called with one, they are the id and version of that run, which is a run of the
  pipeline. The call does return a run when the order is not empty, the run to extend
  (if given) is a run of the pipeline, and the run directory can be made.
\<close>

theorem create_run_version_and_lineage:
  assumes p: "get_pipeline s pid = Some p"
  shows "(p_checkpoint_order p = [] \<longrightarrow>
            create_run now rid s pid ext = (Inl PipelineHasNoCheckpoints, s))
       \<and> (\<forall>run session. create_run now rid s pid ext = (Inr run, session) \<longrightarrow>
              r_run_id run = rid \<and> r_pipeline_id run = pid
            \<and> r_run_version run
                = (if runs_of_pipeline s pid = [] then 1
                   else Max (set (map r_run_version (runs_of_pipeline s pid))) + 1)
            \<and> r_status run = run_not_started
            \<and> r_current_checkpoint_id run = None
            \<and> r_current_checkpoint_position run = None
            \<and> pipeline_runs session = pipeline_runs s @ [run]
            \<and> (\<not> truthy ext \<longrightarrow>
                  r_previous_run_id run = map_option r_run_id (get_latest_valid_run s pid)
                \<and> r_extends_from_run_version run
                    = map_option r_run_version (get_latest_valid_run s pid))
            \<and> (truthy ext \<longrightarrow>
                  (\<exists>prev. get_run s (the ext) = Some prev \<and> r_pipeline_id prev = pid
                     \<and> r_previous_run_id run = Some (the ext)
                     \<and> r_extends_from_run_version run = Some (r_run_version prev))))
       \<and> (p_checkpoint_order p \<noteq> []
            \<and> (truthy ext \<longrightarrow>
                  (\<exists>prev. get_run s (the ext) = Some prev \<and> r_pipeline_id prev = pid))
            \<and> files s (get_run_directory pid (get_next_run_version s pid)) \<in> {None, Some Dir}
            \<longrightarrow> (\<exists>run session. create_run now rid s pid ext = (Inr run, session)))
       \<and> (runs_of_pipeline s pid = [] \<longrightarrow> get_latest_valid_run s pid = None)
       \<and> (runs_of_pipeline s pid \<noteq> [] \<longrightarrow>
            (\<exists>r. get_latest_valid_run s pid = Some r \<and> r \<in> set (runs_of_pipeline s pid)
              \<and> (\<forall>x \<in> set (runs_of_pipeline s pid). r_run_version x \<le> r_run_version r)))"
proof (intro conjI impI allI)
  show "create_run now rid s pid ext = (Inl PipelineHasNoCheckpoints, s)"
    if "p_checkpoint_order p = []"
    using p that by (simp add: create_run_def)
  show "get_latest_valid_run s pid = None" if "runs_of_pipeline s pid = []"
    using that by (rule get_latest_valid_run_None)
  show "\<exists>r. get_latest_valid_run s pid = Some r \<and> r \<in> set (runs_of_pipeline s pid)
              \<and> (\<forall>x \<in> set (runs_of_pipeline s pid). r_run_version x \<le> r_run_version r)"
    if "runs_of_pipeline s pid \<noteq> []"
    using that by (rule get_latest_valid_run_Some)
  show "\<exists>run session. create_run now rid s pid ext = (Inr run, session)"
    if "p_checkpoint_order p \<noteq> []
        \<and> (truthy ext \<longrightarrow>
              (\<exists>prev. get_run s (the ext) = Some prev \<and> r_pipeline_id prev = pid))
        \<and> files s (get_run_directory pid (get_next_run_version s pid)) \<in> {None, Some Dir}"
    using that create_run_returns [OF p, of ext now rid] by blast
next
  fix run session
  assume ok: "create_run now rid s pid ext = (Inr run, session)"
  from create_run_result(2) [OF p ok] obtain previous_run where
        pr: "if truthy ext
             then previous_run = get_run s (the ext) \<and> previous_run \<noteq> None
                  \<and> r_pipeline_id (the previous_run) = pid
             else previous_run = get_latest_valid_run s pid"
    and run: "run = \<lparr>r_run_id = rid, r_pipeline_id = pid,
                    r_run_version = get_next_run_version s pid,
                    r_status = run_not_started,
                    r_current_checkpoint_id = None, r_current_checkpoint_position = None,
                    r_previous_run_id = map_option r_run_id previous_run,
                    r_extends_from_run_version = map_option r_run_version previous_run,
                    r_created_at = now, r_started_at = None, r_completed_at = None\<rparr>"
    by blast
  show "r_run_id run = rid" "r_pipeline_id run = pid" "r_status run = run_not_started"
       "r_current_checkpoint_id run = None" "r_current_checkpoint_position run = None"
    by (simp_all add: run)
  show "r_run_version run
          = (if runs_of_pipeline s pid = [] then 1
             else Max (set (map r_run_version (runs_of_pipeline s pid))) + 1)"
    by (simp add: run get_next_run_version_Max)
  show "pipeline_runs session = pipeline_runs s @ [run]"
    using p ok by (rule create_run_result(3))
  show "r_previous_run_id run = map_option r_run_id (get_latest_valid_run s pid)"
       "r_extends_from_run_version run = map_option r_run_version (get_latest_valid_run s pid)"
    if "\<not> truthy ext"
    using that pr by (simp_all add: run)
  show "\<exists>prev. get_run s (the ext) = Some prev \<and> r_pipeline_id prev = pid
           \<and> r_previous_run_id run = Some (the ext)
           \<and> r_extends_from_run_version run = Some (r_run_version prev)"
    if t: "truthy ext"
  proof -
    from t pr obtain prev where g: "get_run s (the ext) = Some prev"
      and pp: "r_pipeline_id prev = pid" and pv: "previous_run = Some prev"
      by auto
    from g have "r_run_id prev = the ext" by (rule get_run_id)
    with g pp pv show ?thesis by (simp add: run)
  qed
qed

theorem create_run_version_and_lineage_witness:
  "get_pipeline two_runs_state ''p1'' = Some demo_pipeline
   \<and> p_checkpoint_order demo_pipeline \<noteq> []
   \<and> map r_run_version (runs_of_pipeline two_runs_state ''p1'') = [1, 2]
   \<and> truthy (Some ''r1'') \<and> \<not> truthy None
   \<and> fst (create_run 9 ''r3'' two_runs_state ''p1'' (Some ''r1''))
       = Inr \<lparr>r_run_id = ''r3'', r_pipeline_id = ''p1'', r_run_version = 3,
              r_status = run_not_started, r_current_checkpoint_id = None,
              r_current_checkpoint_position = None, r_previous_run_id = Some ''r1'',
              r_extends_from_run_version = Some 1, r_created_at = 9,
              r_started_at = None, r_completed_at = None\<rparr>
   \<and> fst (create_run 9 ''r3'' two_runs_state ''p1'' None)
       = Inr \<lparr>r_run_id = ''r3'', r_pipeline_id = ''p1'', r_run_version = 3,
              r_status = run_not_started, r_current_checkpoint_id = None,
              r_current_checkpoint_position = None, r_previous_run_id = Some ''r2'',
              r_extends_from_run_version = Some 2, r_created_at = 9,
              r_started_at = None, r_completed_at = None\<rparr>"
proof -
  let ?s = two_runs_state
  have p: "get_pipeline ?s ''p1'' = Some demo_pipeline"
    by (simp add: two_runs_state_def demo_definitions_def empty_state_def get_pipeline_def
        demo_pipeline_def)
  have o: "p_checkpoint_order demo_pipeline \<noteq> []" by (simp add: demo_pipeline_def)
  have rs: "runs_of_pipeline ?s ''p1''
              = [demo_run ''r1'' 1 run_completed None, demo_run ''r2'' 2 run_in_progress (Some 0)]"
    by (simp add: two_runs_state_def runs_of_pipeline_def demo_run_def)
  have vs: "map r_run_version (runs_of_pipeline ?s ''p1'') = [1, 2]"
    by (simp add: rs demo_run_def)
  have l: "get_latest_valid_run ?s ''p1'' = Some (demo_run ''r2'' 2 run_in_progress (Some 0))"
    by (simp add: get_latest_valid_run_def rs order_by_desc_def demo_run_def)
  have g: "get_run ?s ''r1'' = Some (demo_run ''r1'' 1 run_completed None)"
    by (simp add: two_runs_state_def get_run_def demo_run_def)
  have nv: "get_next_run_version ?s ''p1'' = 3"
    by (simp add: get_next_run_version_Max rs demo_run_def)
  have d: "files ?s (get_run_directory ''p1'' (get_next_run_version ?s ''p1'')) \<in> {None, Some Dir}"
    by (simp add: nv two_runs_state_def demo_definitions_def empty_state_def path_defs
        str_int_def)
  have t: "truthy (Some ''r1'')" "\<not> truthy None" by (simp_all add: truthy_def)
  have pre: "truthy ext \<longrightarrow>
               (\<exists>prev. get_run ?s (the ext) = Some prev \<and> r_pipeline_id prev = ''p1'')"
    if "ext = Some ''r1'' \<or> ext = None" for ext
    using that g t by (auto simp: demo_run_def)
  note inst = create_run_version_and_lineage [OF p, of 9 "''r3''"]
  obtain run1 session1
    where c1: "create_run 9 ''r3'' ?s ''p1'' (Some ''r1'') = (Inr run1, session1)"
    using inst [of "Some ''r1''"] o pre [of "Some ''r1''"] d by blast
  obtain run2 session2
    where c2: "create_run 9 ''r3'' ?s ''p1'' None = (Inr run2, session2)"
    using inst [of None] o pre [of None] d by blast
  have f1: "r_run_id run1 = ''r3''" "r_pipeline_id run1 = ''p1''" "r_run_version run1 = 3"
    "r_status run1 = run_not_started" "r_current_checkpoint_id run1 = None"
    "r_current_checkpoint_position run1 = None" "r_previous_run_id run1 = Some ''r1''"
    "r_extends_from_run_version run1 = Some 1"
    using inst [of "Some ''r1''"] c1 t g rs by (auto simp: demo_run_def)
  have f2: "r_run_id run2 = ''r3''" "r_pipeline_id run2 = ''p1''" "r_run_version run2 = 3"
    "r_status run2 = run_not_started" "r_current_checkpoint_id run2 = None"
    "r_current_checkpoint_position run2 = None" "r_previous_run_id run2 = Some ''r2''"
    "r_extends_from_run_version run2 = Some 2"
    using inst [of None] c2 t l rs by (auto simp: demo_run_def)
  have t1: "r_created_at run1 = 9 \<and> r_started_at run1 = None \<and> r_completed_at run1 = None"
    using create_run_result(2) [OF p c1] by auto
  have t2: "r_created_at run2 = 9 \<and> r_started_at run2 = None \<and> r_completed_at run2 = None"
    using create_run_result(2) [OF p c2] by auto
  have e1: "run1 = \<lparr>r_run_id = ''r3'', r_pipeline_id = ''p1'', r_run_version = 3,
              r_status = run_not_started, r_current_checkpoint_id = None,
              r_current_checkpoint_position = None, r_previous_run_id = Some ''r1'',
              r_extends_from_run_version = Some 1, r_created_at = 9,
              r_started_at = None, r_completed_at = None\<rparr>"
    using f1 t1 by (cases run1) simp
  have e2: "run2 = \<lparr>r_run_id = ''r3'', r_pipeline_id = ''p1'', r_run_version = 3,
              r_status = run_not_started, r_current_checkpoint_id = None,
              r_current_checkpoint_position = None, r_previous_run_id = Some ''r2'',
              r_extends_from_run_version = Some 2, r_created_at = 9,
              r_started_at = None, r_completed_at = None\<rparr>"
    using f2 t2 by (cases run2) simp
  show ?thesis
    using p o vs t c1 c2 e1 e2 by simp
qed

subsection \<open>The completion protocol\<close>

lemma promote_one_tables:
  "pipelines (fst (promote_one now e r c acc a)) = pipelines (fst acc)
   \<and> checkpoint_definitions (fst (promote_one now e r c acc a)) = checkpoint_definitions (fst acc)
   \<and> pipeline_runs (fst (promote_one now e r c acc a)) = pipeline_runs (fst acc)
   \<and> checkpoint_executions (fst (promote_one now e r c acc a)) = checkpoint_executions (fst acc)
   \<and> human_interactions (fst (promote_one now e r c acc a)) = human_interactions (fst acc)"
  by (simp add: promote_one_def Let_def save_artifact_def split: prod.splits sum.splits)

lemma promote_fold_tables:
  "pipelines (fst (foldl (promote_one now e r c) acc as)) = pipelines (fst acc)
   \<and> checkpoint_definitions (fst (foldl (promote_one now e r c) acc as))
       = checkpoint_definitions (fst acc)
   \<and> pipeline_runs (fst (foldl (promote_one now e r c) acc as)) = pipeline_runs (fst acc)
   \<and> checkpoint_executions (fst (foldl (promote_one now e r c) acc as))
       = checkpoint_executions (fst acc)
   \<and> human_interactions (fst (foldl (promote_one now e r c) acc as))
       = human_interactions (fst acc)"
proof (induction as arbitrary: acc)
  case Nil
  show ?case by simp
next
  case (Cons a as)
  show ?case using Cons.IH [of "promote_one now e r c acc a"] promote_one_tables [of now e r c acc a]
    by simp
qed

lemma promote_all_tables:
  "pipelines (fst (promote_all now e r c s)) = pipelines s
   \<and> checkpoint_definitions (fst (promote_all now e r c s)) = checkpoint_definitions s
   \<and> pipeline_runs (fst (promote_all now e r c s)) = pipeline_runs s
   \<and> checkpoint_executions (fst (promote_all now e r c s)) = checkpoint_executions s
   \<and> human_interactions (fst (promote_all now e r c s)) = human_interactions s"
  using promote_fold_tables [of now e r c "(s, [])"] by (simp add: promote_all_def)


lemma mkdir_parents_outside:
  "\<not> prefix q p \<Longrightarrow> mkdir_parents f p q = f q"
  by (simp add: mkdir_parents_def)

lemma map_upd_fresh:
  "i \<notin> k ` set xs \<Longrightarrow> map (\<lambda>x. if k x = i then y else x) xs = xs"
  by (induction xs) auto

lemma create_checkpoint_execution_rows:
  assumes "nid \<notin> set (map e_execution_id (checkpoint_executions s))"
  shows "checkpoint_executions (snd (create_checkpoint_execution now nid s run cd pos))
           = checkpoint_executions s @ [fst (create_checkpoint_execution now nid s run cd pos)]"
  using assms
  by (simp add: create_checkpoint_execution_def Let_def save_execution_def add_interaction_def
      map_upd_fresh)

lemma create_checkpoint_execution_fields:
  "e_execution_id (fst (create_checkpoint_execution now nid s run cd pos)) = nid
   \<and> e_run_id (fst (create_checkpoint_execution now nid s run cd pos)) = r_run_id run
   \<and> e_checkpoint_id (fst (create_checkpoint_execution now nid s run cd pos)) = cd_checkpoint_id cd
   \<and> e_checkpoint_position (fst (create_checkpoint_execution now nid s run cd pos)) = pos
   \<and> e_status (fst (create_checkpoint_execution now nid s run cd pos))
       = (if dict_get (cd_requires_approval_to_start cd) False
          then waiting_approval_to_start else in_progress)
   \<and> pipeline_runs (snd (create_checkpoint_execution now nid s run cd pos)) = pipeline_runs s"
  by (simp add: create_checkpoint_execution_def Let_def save_execution_def add_interaction_def)


lemma create_keeps_deleted_temp:
  assumes ne: "eid \<noteq> nid"
      and pre: "prefix (get_temp_execution_directory (r_pipeline_id run) eid) q"
      and gone: "files s q = None"
  shows "files (snd (create_checkpoint_execution now nid s run cd pos)) q = None"
proof -
  let ?pid = "r_pipeline_id run"
  let ?new = "get_temp_execution_directory ?pid nid"
  let ?out = "get_checkpoint_outputs_directory ?pid (r_run_version run) (cd_checkpoint_name cd) pos"
  have n1: "\<not> prefix q ?new"
  proof
    assume "prefix q ?new"
    with pre have "prefix (get_temp_execution_directory ?pid eid) ?new"
      by (rule prefix_order.trans)
    with ne show False
      by (simp add: get_temp_execution_directory_def temp_dir_def base_path_def
          BASE_PIPELINES_PATH_def)
  qed
  have n2: "\<not> prefix q ?out"
  proof
    assume "prefix q ?out"
    with pre have "prefix (get_temp_execution_directory ?pid eid) ?out"
      by (rule prefix_order.trans)
    then show False
      by (simp add: get_temp_execution_directory_def temp_dir_def base_path_def
          BASE_PIPELINES_PATH_def get_checkpoint_outputs_directory_def
          get_checkpoint_directory_def get_run_directory_def runs_dir_def)
  qed
  have n3: "q \<noteq> ?new @ [x]" for x
  proof
    assume "q = ?new @ [x]"
    with pre ne show False
      by (simp add: get_temp_execution_directory_def temp_dir_def base_path_def
          BASE_PIPELINES_PATH_def)
  qed
  show ?thesis
    using n1 n2 n3 gone
    by (simp add: create_checkpoint_execution_def Let_def save_execution_def
        add_interaction_def create_checkpoint_outputs_directory_def
        create_temp_execution_directory_def mkdir_parents_def mkdir_exist_ok_def)
qed

lemma delete_temp_clears:
  assumes "path_exists f (get_temp_execution_directory pid eid)"
      and "prefix (get_temp_execution_directory pid eid) q"
  shows "delete_temp_execution_directory f pid eid q = None"
  using assms by (simp add: delete_temp_execution_directory_def rmtree_def)

lemma promote_one_keeps_workspace:
  "files (fst (promote_one now e r c acc a))
       (get_temp_execution_directory (r_pipeline_id r) (e_execution_id e))
     = files (fst acc) (get_temp_execution_directory (r_pipeline_id r) (e_execution_id e))"
  by (simp add: promote_one_def Let_def save_artifact_def promote_artifact_to_permanent_def
      mkdir_parents_def shutil_move_def path_defs split: prod.splits sum.splits)

lemma promote_fold_keeps_workspace:
  "files (fst (foldl (promote_one now e r c) acc as))
       (get_temp_execution_directory (r_pipeline_id r) (e_execution_id e))
     = files (fst acc) (get_temp_execution_directory (r_pipeline_id r) (e_execution_id e))"
proof (induction as arbitrary: acc)
  case Nil
  show ?case by simp
next
  case (Cons a as)
  show ?case
    using Cons.IH [of "promote_one now e r c acc a"] promote_one_keeps_workspace [of now e r c acc a]
    by simp
qed

lemma promote_all_keeps_workspace:
  "files (fst (promote_all now e r c s))
       (get_temp_execution_directory (r_pipeline_id r) (e_execution_id e))
     = files s (get_temp_execution_directory (r_pipeline_id r) (e_execution_id e))"
  using promote_fold_keeps_workspace [of now e r c "(s, [])"] by (simp add: promote_all_def)


lemma py_index_in_range:
  "0 \<le> i \<Longrightarrow> i < int (length xs) \<Longrightarrow> py_index xs i = Inr (xs ! nat i)"
  by (simp add: py_index_def)

lemma promote_one_keeps_run_directory:
  assumes "files (fst acc) (get_run_directory (r_pipeline_id r) (r_run_version r)) = Some Dir"
  shows "files (fst (promote_one now e r c acc a))
           (get_run_directory (r_pipeline_id r) (r_run_version r)) = Some Dir"
  using assms
  by (simp add: promote_one_def Let_def save_artifact_def promote_artifact_to_permanent_def
      mkdir_parents_def shutil_move_def path_defs split: prod.splits sum.splits)

lemma promote_fold_keeps_run_directory:
  assumes "files (fst acc) (get_run_directory (r_pipeline_id r) (r_run_version r)) = Some Dir"
  shows "files (fst (foldl (promote_one now e r c) acc as))
           (get_run_directory (r_pipeline_id r) (r_run_version r)) = Some Dir"
  using assms
proof (induction as arbitrary: acc)
  case Nil
  then show ?case by simp
next
  case (Cons a as)
  from Cons.IH [OF promote_one_keeps_run_directory [OF Cons.prems, of now e c a]]
  show ?case by simp
qed

lemma mark_completed_keeps_run_directory:
  assumes "files s (get_run_directory (r_pipeline_id r) (r_run_version r)) = Some Dir"
  shows "files (fst (mark_completed now s e r c promote))
           (get_run_directory (r_pipeline_id r) (r_run_version r)) = Some Dir"
  using assms promote_fold_keeps_run_directory [of "(s, [])" r now e c]
  by (simp add: mark_completed_def Let_def add_interaction_def save_execution_def
      promote_all_def)

text \<open>
  C2. Let an execution at a non-negative position be completed by the completion
  protocol (the function both \<open>submit_form_data\<close>, when no completion approval is
  required, and \<open>approve_complete\<close> call), the id for the next execution being unused.
  If the checkpoint order has an id at \<open>checkpoint_position + 1\<close> and that checkpoint's
  definition exists, the call returns, a new execution is created at that position for
  the same run, the run's current-position pointer is set to it, and the new execution
  is \<open>in_progress\<close> when the pipeline has \<open>auto_advance\<close> and the next checkpoint
  requires no start approval, \<open>waiting_approval_to_start\<close> otherwise. If the order has
  no such position, the call returns when the run directory exists, and whenever it
  returns the run has become \<open>completed\<close> with \<open>completed_at\<close> stamped. In both cases
  the completed execution's temp workspace is deleted: nothing is left at or below its
  directory.
\<close>

theorem completion_advances_or_finishes:
  assumes cd: "get_checkpoint_definition s (e_checkpoint_id e) = Some cd"
      and run: "get_run s (e_run_id e) = Some run"
      and pl: "get_pipeline s (r_pipeline_id run) = Some pl"
      and pos: "0 \<le> e_checkpoint_position e"
      and mem: "e \<in> set (checkpoint_executions s)"
      and fresh: "nid \<notin> e_execution_id ` set (checkpoint_executions s)"
      and out: "out = complete_checkpoint_and_advance now nid s e promote"
  shows "(e_checkpoint_position e + 1 < int (length (p_checkpoint_order pl)) \<longrightarrow>
           (\<forall>ncd. get_checkpoint_definition s
                     (p_checkpoint_order pl ! nat (e_checkpoint_position e + 1)) = Some ncd \<longrightarrow>
             (\<exists>res ne.
                 fst out = Inr res \<and> cr_next_execution_id res = Some nid
               \<and> checkpoint_executions (snd out)
                   = map (\<lambda>x. if e_execution_id x = e_execution_id e
                               then e\<lparr>e_status := completed, e_completed_at := Some now\<rparr> else x)
                       (checkpoint_executions s) @ [ne]
               \<and> e_execution_id ne = nid \<and> e_run_id ne = e_run_id e
               \<and> e_checkpoint_id ne = cd_checkpoint_id ncd
               \<and> e_checkpoint_position ne = e_checkpoint_position e + 1
               \<and> e_status ne
                   = (if p_auto_advance pl \<and> \<not> dict_get (cd_requires_approval_to_start ncd) False
                      then in_progress else waiting_approval_to_start)
               \<and> get_run (snd out) (e_run_id e)
                   = Some (run\<lparr>r_current_checkpoint_id :=
                                  Some (p_checkpoint_order pl ! nat (e_checkpoint_position e + 1)),
                                r_current_checkpoint_position :=
                                  Some (e_checkpoint_position e + 1)\<rparr>)
               \<and> (path_exists (files s)
                     (get_temp_execution_directory (r_pipeline_id run) (e_execution_id e)) \<longrightarrow>
                   (\<forall>q. prefix (get_temp_execution_directory (r_pipeline_id run)
                                   (e_execution_id e)) q
                        \<longrightarrow> files (snd out) q = None)))))
       \<and> (int (length (p_checkpoint_order pl)) \<le> e_checkpoint_position e + 1 \<longrightarrow>
             (files s (get_run_directory (r_pipeline_id run) (r_run_version run)) = Some Dir
                \<longrightarrow> (\<exists>res. fst out = Inr res))
           \<and> (\<forall>res. fst out = Inr res \<longrightarrow>
                 cr_run_status res = run_completed
               \<and> checkpoint_executions (snd out)
                   = map (\<lambda>x. if e_execution_id x = e_execution_id e
                               then e\<lparr>e_status := completed, e_completed_at := Some now\<rparr> else x)
                       (checkpoint_executions s)
               \<and> get_run (snd out) (e_run_id e)
                   = Some (run\<lparr>r_status := run_completed, r_completed_at := Some now,
                                r_current_checkpoint_id := None,
                                r_current_checkpoint_position := None\<rparr>)
               \<and> (path_exists (files s)
                     (get_temp_execution_directory (r_pipeline_id run) (e_execution_id e)) \<longrightarrow>
                   (\<forall>q. prefix (get_temp_execution_directory (r_pipeline_id run)
                                   (e_execution_id e)) q
                        \<longrightarrow> files (snd out) q = None))))"
proof -
  let ?pos = "e_checkpoint_position e"
  let ?ord = "p_checkpoint_order pl"
  let ?e' = "e\<lparr>e_status := completed, e_completed_at := Some now\<rparr>"
  let ?pid = "r_pipeline_id run"
  let ?tmp = "get_temp_execution_directory ?pid (e_execution_id e)"
  let ?rd = "get_run_directory ?pid (r_run_version run)"
  define s2 where "s2 = fst (mark_completed now s e run cd promote)"
  define pr where "pr = snd (mark_completed now s e run cd promote)"
  have s2_tables: "pipelines s2 = pipelines s"
      "checkpoint_definitions s2 = checkpoint_definitions s"
      "pipeline_runs s2 = pipeline_runs s"
      "checkpoint_executions s2
         = map (\<lambda>x. if e_execution_id x = e_execution_id e then ?e' else x)
             (checkpoint_executions s)"
    using promote_all_tables [of now e run cd s]
    by (simp_all add: s2_def mark_completed_def Let_def add_interaction_def save_execution_def)
  have s2_tmp: "files s2 ?tmp = files s ?tmp"
    using promote_all_keeps_workspace [of now e run cd s]
    by (simp add: s2_def mark_completed_def Let_def add_interaction_def save_execution_def)
  have rid: "r_run_id run = e_run_id e" using run by (rule get_run_id)
  have run2: "get_run s2 (e_run_id e) = Some run"
    using run s2_tables by (simp add: get_run_def)
  have cdef2: "get_checkpoint_definition s2 c = get_checkpoint_definition s c" for c
    using s2_tables by (simp add: get_checkpoint_definition_def)
  have ne_id: "e_execution_id e \<noteq> nid" using mem fresh by auto
  have fresh2: "nid \<notin> e_execution_id ` set (checkpoint_executions s2)"
    using fresh ne_id by (auto simp: s2_tables)
  have out': "out = advance_or_finish now nid s2 ?e' run pl pr"
    using cd run pl out
    by (simp add: complete_checkpoint_and_advance_def Let_def s2_def pr_def)
  have del: "delete_temp_execution_directory (files s2) ?pid (e_execution_id e) q = None"
    if ex: "path_exists (files s) ?tmp" and pre: "prefix ?tmp q" for q
  proof -
    have ex2: "path_exists (files s2) ?tmp" using ex s2_tmp by (simp add: path_exists_def)
    from ex2 pre show ?thesis by (rule delete_temp_clears)
  qed
  have A: "\<exists>res ne.
               fst out = Inr res \<and> cr_next_execution_id res = Some nid
             \<and> checkpoint_executions (snd out)
                 = map (\<lambda>x. if e_execution_id x = e_execution_id e then ?e' else x)
                     (checkpoint_executions s) @ [ne]
             \<and> e_execution_id ne = nid \<and> e_run_id ne = e_run_id e
             \<and> e_checkpoint_id ne = cd_checkpoint_id ncd
             \<and> e_checkpoint_position ne = ?pos + 1
             \<and> e_status ne
                 = (if p_auto_advance pl \<and> \<not> dict_get (cd_requires_approval_to_start ncd) False
                    then in_progress else waiting_approval_to_start)
             \<and> get_run (snd out) (e_run_id e)
                 = Some (run\<lparr>r_current_checkpoint_id := Some (?ord ! nat (?pos + 1)),
                              r_current_checkpoint_position := Some (?pos + 1)\<rparr>)
             \<and> (path_exists (files s) ?tmp \<longrightarrow>
                  (\<forall>q. prefix ?tmp q \<longrightarrow> files (snd out) q = None))"
    if lt: "?pos + 1 < int (length ?ord)"
      and ncd: "get_checkpoint_definition s (?ord ! nat (?pos + 1)) = Some ncd" for ncd
  proof -
    let ?nc = "?ord ! nat (?pos + 1)"
    have idx: "py_index ?ord (?pos + 1) = Inr ?nc"
      using pos lt by (simp add: py_index_in_range)
    let ?s3 = "s2\<lparr>files := delete_temp_execution_directory (files s2) ?pid (e_execution_id e)\<rparr>"
    let ?cr = "create_checkpoint_execution now nid ?s3 run ncd (?pos + 1)"
    let ?run' = "run\<lparr>r_current_checkpoint_id := Some ?nc,
                      r_current_checkpoint_position := Some (?pos + 1)\<rparr>"
    let ?ne' = "if p_auto_advance pl then
                  (if \<not> dict_get (cd_requires_approval_to_start ncd) False
                   then (fst ?cr)\<lparr>e_status := in_progress, e_started_at := Some now\<rparr>
                   else fst ?cr)
                else (fst ?cr)\<lparr>e_status := waiting_approval_to_start\<rparr>"
    let ?res = "\<lparr>cr_execution = ?e', cr_promoted_artifacts = pr,
                  cr_next_checkpoint_id = Some ?nc,
                  cr_next_execution_id = Some (e_execution_id ?ne'),
                  cr_run_status = r_status ?run'\<rparr>"
    have oeq: "out = (Inr ?res, save_execution ?ne' (save_run ?run' (snd ?cr)))"
      using lt idx ncd by (simp add: out' advance_or_finish_def Let_def cdef2)
    have fresh3: "nid \<notin> set (map e_execution_id (checkpoint_executions ?s3))"
      using fresh2 by simp
    have rows: "checkpoint_executions (snd ?cr) = checkpoint_executions s2 @ [fst ?cr]"
      using create_checkpoint_execution_rows [OF fresh3] by simp
    have flds: "e_execution_id (fst ?cr) = nid" "e_run_id (fst ?cr) = r_run_id run"
        "e_checkpoint_id (fst ?cr) = cd_checkpoint_id ncd"
        "e_checkpoint_position (fst ?cr) = ?pos + 1"
        "e_status (fst ?cr) = (if dict_get (cd_requires_approval_to_start ncd) False
                               then waiting_approval_to_start else in_progress)"
        "pipeline_runs (snd ?cr) = pipeline_runs s2"
      using create_checkpoint_execution_fields [of now nid ?s3 run ncd "?pos + 1"] by simp_all
    have id': "e_execution_id ?ne' = nid" using flds by simp
    have final_rows: "checkpoint_executions (snd out) = checkpoint_executions s2 @ [?ne']"
      using fresh2 id' flds(1)
      by (simp add: oeq save_execution_def save_run_def rows map_upd_fresh del: if_split
          cong: if_cong)
    have gr: "get_run (snd out) (e_run_id e) = Some ?run'"
    proof -
      have "get_run (snd ?cr) (e_run_id e) = Some run"
        using run2 flds(6) by (simp add: get_run_def)
      then have "get_run (save_run ?run' (snd ?cr)) (e_run_id e) = Some ?run'"
        by (rule get_run_save) (simp add: rid)
      then show ?thesis by (simp add: oeq get_run_def save_execution_def)
    qed
    have gone: "files (snd out) q = None"
      if ex: "path_exists (files s) ?tmp" and pre: "prefix ?tmp q" for q
    proof -
      have "files (snd ?cr) q = None"
        using ne_id pre by (rule create_keeps_deleted_temp) (simp add: del [OF ex pre])
      then show ?thesis by (simp add: oeq save_execution_def save_run_def)
    qed
    have f: "fst out = Inr ?res" by (simp add: oeq)
    have n: "cr_next_execution_id ?res = Some nid" using id' by simp
    show ?thesis
      apply (rule exI [of _ ?res], rule exI [of _ ?ne'])
      using f n final_rows gr flds rid gone by (simp add: s2_tables)
  qed
  let ?run' = "run\<lparr>r_status := run_completed, r_completed_at := Some now,
                    r_current_checkpoint_id := None, r_current_checkpoint_position := None\<rparr>"
  let ?s4 = "(save_run ?run' s2)\<lparr>files :=
               delete_temp_execution_directory (files (save_run ?run' s2)) ?pid
                 (e_execution_id e)\<rparr>"
  have fin: "out = (case save_run_info (files ?s4) ?pid (r_run_version run)
                           (run_info_final ?run') of
                      Inl err \<Rightarrow> (Inl err, ?s4)
                    | Inr f' \<Rightarrow>
                        (Inr \<lparr>cr_execution = ?e', cr_promoted_artifacts = pr,
                              cr_next_checkpoint_id = None, cr_next_execution_id = None,
                              cr_run_status = r_status ?run'\<rparr>, ?s4\<lparr>files := f'\<rparr>))"
    if ge: "int (length ?ord) \<le> ?pos + 1"
    using ge by (simp add: out' advance_or_finish_def Let_def)
  have B1: "\<exists>res. fst out = Inr res"
    if ge: "int (length ?ord) \<le> ?pos + 1" and dir: "files s ?rd = Some Dir"
  proof -
    have "files s2 ?rd = Some Dir"
      unfolding s2_def using dir by (rule mark_completed_keeps_run_directory)
    moreover have "\<not> prefix ?tmp ?rd" by (simp add: path_defs)
    ultimately have "files ?s4 ?rd = Some Dir"
      by (simp add: save_run_def delete_temp_execution_directory_def rmtree_def Let_def)
    then show ?thesis
      unfolding fin [OF ge] by (simp add: save_run_info_def Let_def)
  qed
  have B2: "cr_run_status res = run_completed
           \<and> checkpoint_executions (snd out)
                 = map (\<lambda>x. if e_execution_id x = e_execution_id e then ?e' else x)
                     (checkpoint_executions s)
           \<and> get_run (snd out) (e_run_id e) = Some ?run'
           \<and> (path_exists (files s) ?tmp \<longrightarrow>
                  (\<forall>q. prefix ?tmp q \<longrightarrow> files (snd out) q = None))"
    if ge: "int (length ?ord) \<le> ?pos + 1" and ok: "fst out = Inr res" for res
  proof -
    from ok fin [OF ge] obtain f' where
          sv: "save_run_info (files ?s4) ?pid (r_run_version run) (run_info_final ?run') = Inr f'"
      by (cases "save_run_info (files ?s4) ?pid (r_run_version run) (run_info_final ?run')")
         simp_all
    have oeq: "out = (Inr \<lparr>cr_execution = ?e', cr_promoted_artifacts = pr,
                          cr_next_checkpoint_id = None, cr_next_execution_id = None,
                          cr_run_status = r_status ?run'\<rparr>, ?s4\<lparr>files := f'\<rparr>)"
      using fin [OF ge] sv by simp
    have f'eq: "f' = write_file (files ?s4) (?rd @ [''run_info.json''])
                       (json_dump (run_info_final ?run'))"
      using sv by (simp add: save_run_info_def Let_def split: if_splits)
    have g: "get_run (save_run ?run' s2) (e_run_id e) = Some ?run'"
      using run2 by (rule get_run_save) (simp add: rid)
    have st: "cr_run_status res = run_completed" using ok oeq by auto
    have rows: "checkpoint_executions (snd out)
                 = map (\<lambda>x. if e_execution_id x = e_execution_id e then ?e' else x)
                     (checkpoint_executions s)"
      by (simp add: oeq save_run_def s2_tables)
    have gr: "get_run (snd out) (e_run_id e) = Some ?run'"
      using g by (simp add: oeq get_run_def)
    have gone: "files (snd out) q = None"
      if ex: "path_exists (files s) ?tmp" and pre: "prefix ?tmp q" for q
    proof -
      have "q \<noteq> ?rd @ [''run_info.json'']"
        using pre by (auto simp: path_defs)
      then show ?thesis
        using del [OF ex pre] by (simp add: oeq f'eq write_file_def save_run_def)
    qed
    from st rows gr gone show ?thesis by blast
  qed
  from A B1 B2 show ?thesis by blast
qed

theorem completion_advances_or_finishes_witness:
  "get_run started_state ''r1'' = Some (demo_run ''r1'' 1 run_in_progress (Some 0))
   \<and> get_pipeline started_state ''p1'' = Some demo_pipeline
   \<and> get_checkpoint_definition started_state ''c1''
       = Some (demo_checkpoint ''c1'' ''review'' False True)
   \<and> map e_status (checkpoint_executions (snd (complete_checkpoint_and_advance 9 ''e9''
          started_state (demo_execution ''e0'' ''r1'' ''c0'' 0 in_progress 0) True)))
       = [completed, in_progress]
   \<and> map e_checkpoint_position (checkpoint_executions (snd (complete_checkpoint_and_advance 9
          ''e9'' started_state (demo_execution ''e0'' ''r1'' ''c0'' 0 in_progress 0) True)))
       = [0, 1]
   \<and> map_option r_current_checkpoint_position (get_run (snd (complete_checkpoint_and_advance 9
          ''e9'' started_state (demo_execution ''e0'' ''r1'' ''c0'' 0 in_progress 0) True)) ''r1'')
       = Some (Some 1)
   \<and> files closing_state (get_run_directory ''p1'' 1) = Some Dir
   \<and> files closing_state (get_temp_execution_directory ''p1'' ''e2'' @ [''workspace''])
       = Some Dir
   \<and> map_option r_status (get_run (snd (complete_checkpoint_and_advance 9 ''e9''
          closing_state (demo_execution ''e2'' ''r1'' ''c2'' 2 waiting_approval_to_complete 0)
          True)) ''r1'')
       = Some run_completed
   \<and> map_option r_completed_at (get_run (snd (complete_checkpoint_and_advance 9 ''e9''
          closing_state (demo_execution ''e2'' ''r1'' ''c2'' 2 waiting_approval_to_complete 0)
          True)) ''r1'')
       = Some (Some 9)
   \<and> files (snd (complete_checkpoint_and_advance 9 ''e9''
          closing_state (demo_execution ''e2'' ''r1'' ''c2'' 2 waiting_approval_to_complete 0)
          True)) (get_temp_execution_directory ''p1'' ''e2'' @ [''workspace''])
       = None"
proof -
  let ?e = "demo_execution ''e0'' ''r1'' ''c0'' 0 in_progress 0"
  let ?run = "demo_run ''r1'' 1 run_in_progress (Some 0)"
  let ?out = "complete_checkpoint_and_advance 9 ''e9'' started_state ?e True"
  have cd: "get_checkpoint_definition started_state (e_checkpoint_id ?e)
              = Some (demo_checkpoint ''c0'' ''intake'' False False)"
    by (simp add: started_state_def demo_definitions_def empty_state_def
        get_checkpoint_definition_def demo_execution_def demo_checkpoint_def)
  have run: "get_run started_state (e_run_id ?e) = Some ?run"
    by (simp add: started_state_def get_run_def demo_execution_def demo_run_def)
  have pl: "get_pipeline started_state (r_pipeline_id ?run) = Some demo_pipeline"
    by (simp add: started_state_def demo_definitions_def empty_state_def get_pipeline_def
        demo_run_def demo_pipeline_def)
  have pos: "0 \<le> e_checkpoint_position ?e" by (simp add: demo_execution_def)
  have mem: "?e \<in> set (checkpoint_executions started_state)"
    by (simp add: started_state_def)
  have fresh: "''e9'' \<notin> e_execution_id ` set (checkpoint_executions started_state)"
    by (simp add: started_state_def demo_execution_def)
  have lt: "e_checkpoint_position ?e + 1 < int (length (p_checkpoint_order demo_pipeline))"
    by (simp add: demo_execution_def demo_pipeline_def)
  have c1: "get_checkpoint_definition started_state
              (p_checkpoint_order demo_pipeline ! nat (e_checkpoint_position ?e + 1))
            = Some (demo_checkpoint ''c1'' ''review'' False True)"
    by (simp add: started_state_def demo_definitions_def empty_state_def
        get_checkpoint_definition_def demo_execution_def demo_checkpoint_def demo_pipeline_def)
  have c1': "get_checkpoint_definition started_state ''c1''
            = Some (demo_checkpoint ''c1'' ''review'' False True)"
    using c1 by (simp add: demo_pipeline_def demo_execution_def)
  from completion_advances_or_finishes [OF cd run pl pos mem fresh refl, of 9 True] lt c1
  obtain ne where
        rows: "checkpoint_executions (snd ?out)
                 = map (\<lambda>x. if e_execution_id x = e_execution_id ?e
                             then ?e\<lparr>e_status := completed, e_completed_at := Some 9\<rparr> else x)
                     (checkpoint_executions started_state) @ [ne]"
    and p1: "e_checkpoint_position ne = e_checkpoint_position ?e + 1"
    and st: "e_status ne
                 = (if p_auto_advance demo_pipeline
                       \<and> \<not> dict_get (cd_requires_approval_to_start
                                        (demo_checkpoint ''c1'' ''review'' False True)) False
                    then in_progress else waiting_approval_to_start)"
    and gr: "get_run (snd ?out) (e_run_id ?e)
                 = Some (?run\<lparr>r_current_checkpoint_id :=
                                Some (p_checkpoint_order demo_pipeline
                                        ! nat (e_checkpoint_position ?e + 1)),
                              r_current_checkpoint_position :=
                                Some (e_checkpoint_position ?e + 1)\<rparr>)"
    by blast
  have st': "e_status ne = in_progress"
    using st by (simp add: demo_pipeline_def demo_checkpoint_def dict_get_def)
  have a1: "map e_status (checkpoint_executions (snd ?out)) = [completed, in_progress]"
    using rows st' by (simp add: started_state_def demo_execution_def)
  have a2: "map e_checkpoint_position (checkpoint_executions (snd ?out)) = [0, 1]"
    using rows p1 by (simp add: started_state_def demo_execution_def)
  have a3: "map_option r_current_checkpoint_position (get_run (snd ?out) ''r1'') = Some (Some 1)"
    using gr by (simp add: demo_execution_def)
  let ?e2 = "demo_execution ''e2'' ''r1'' ''c2'' 2 waiting_approval_to_complete 0"
  let ?run2 = "demo_run ''r1'' 1 run_in_progress (Some 2)"
  let ?out2 = "complete_checkpoint_and_advance 9 ''e9'' closing_state ?e2 True"
  let ?tmp = "get_temp_execution_directory ''p1'' ''e2''"
  have cd2: "get_checkpoint_definition closing_state (e_checkpoint_id ?e2)
              = Some (demo_checkpoint ''c2'' ''publish'' True True)"
    by (simp add: closing_state_def demo_definitions_def empty_state_def
        get_checkpoint_definition_def demo_execution_def demo_checkpoint_def)
  have run2: "get_run closing_state (e_run_id ?e2) = Some ?run2"
    by (simp add: closing_state_def get_run_def demo_execution_def demo_run_def)
  have pl2: "get_pipeline closing_state (r_pipeline_id ?run2) = Some demo_pipeline"
    by (simp add: closing_state_def demo_definitions_def empty_state_def get_pipeline_def
        demo_run_def demo_pipeline_def)
  have pos2: "0 \<le> e_checkpoint_position ?e2" by (simp add: demo_execution_def)
  have mem2: "?e2 \<in> set (checkpoint_executions closing_state)"
    by (simp add: closing_state_def)
  have fresh2: "''e9'' \<notin> e_execution_id ` set (checkpoint_executions closing_state)"
    by (simp add: closing_state_def demo_execution_def)
  have ge: "int (length (p_checkpoint_order demo_pipeline)) \<le> e_checkpoint_position ?e2 + 1"
    by (simp add: demo_execution_def demo_pipeline_def)
  have dir: "files closing_state (get_run_directory (r_pipeline_id ?run2) (r_run_version ?run2))
               = Some Dir"
    by (simp add: closing_state_def demo_run_def path_defs str_int_def)
  have dir': "files closing_state (get_run_directory ''p1'' 1) = Some Dir"
    using dir by (simp add: demo_run_def)
  have ws: "files closing_state (?tmp @ [''workspace'']) = Some Dir"
    by (simp add: closing_state_def path_defs)
  have ex: "path_exists (files closing_state)
              (get_temp_execution_directory (r_pipeline_id ?run2) (e_execution_id ?e2))"
    by (simp add: closing_state_def path_exists_def demo_run_def demo_execution_def path_defs)
  have pre: "prefix (get_temp_execution_directory (r_pipeline_id ?run2) (e_execution_id ?e2))
               (?tmp @ [''workspace''])"
    by (simp add: demo_run_def demo_execution_def)
  note fin = completion_advances_or_finishes [OF cd2 run2 pl2 pos2 mem2 fresh2 refl, of 9 True]
  from fin ge dir obtain res where res: "fst ?out2 = Inr res" by blast
  from fin ge res ex pre
  have gr2: "get_run (snd ?out2) (e_run_id ?e2)
               = Some (?run2\<lparr>r_status := run_completed, r_completed_at := Some 9,
                              r_current_checkpoint_id := None,
                              r_current_checkpoint_position := None\<rparr>)"
    and gone: "files (snd ?out2) (?tmp @ [''workspace'']) = None"
    by blast+
  have b1: "map_option r_status (get_run (snd ?out2) ''r1'') = Some run_completed"
    using gr2 by (simp add: demo_execution_def)
  have b2: "map_option r_completed_at (get_run (snd ?out2) ''r1'') = Some (Some 9)"
    using gr2 by (simp add: demo_execution_def)
  show ?thesis
    using run pl c1' a1 a2 a3 dir' ws b1 b2 gone
    by (simp add: demo_execution_def demo_run_def)
qed

text \<open>
  C2, as stated, fails where the order names a checkpoint whose definition is gone:
  in \<open>dangling_state\<close> the order has \<open>c1\<close> at position 1 and no definition of \<open>c1\<close>
  exists. Approving the completion of \<open>e0\<close> at position 0 returns, and neither branch
  of the claim has happened: no execution was created, the run is still
  \<open>in_progress\<close> at position 0 with no \<open>completed_at\<close>, and the workspace of \<open>e0\<close> is
  still there.
\<close>

theorem completion_dangling_checkpoint_counterexample:
  "map_option p_checkpoint_order (get_pipeline dangling_state ''p1'')
     = Some [''c0'', ''c1'', ''c2'']
   \<and> map_option e_checkpoint_position (get_execution dangling_state ''e0'') = Some 0
   \<and> map_option e_status (get_execution dangling_state ''e0'')
       = Some waiting_approval_to_complete
   \<and> get_checkpoint_definition dangling_state ''c1'' = None
   \<and> map_sum id cr_next_execution_id
         (fst (post_approve_complete 9 ''e9'' dangling_state ''e0'' True))
       = Inr None
   \<and> map_sum id cr_run_status
         (fst (post_approve_complete 9 ''e9'' dangling_state ''e0'' True))
       = Inr run_in_progress
   \<and> map (\<lambda>x. (e_execution_id x, e_checkpoint_position x, e_status x))
         (checkpoint_executions (snd (post_approve_complete 9 ''e9'' dangling_state ''e0'' True)))
       = [(''e0'', 0, completed)]
   \<and> get_run (snd (post_approve_complete 9 ''e9'' dangling_state ''e0'' True)) ''r1''
       = Some (demo_run ''r1'' 1 run_in_progress (Some 0))
   \<and> r_completed_at (demo_run ''r1'' 1 run_in_progress (Some 0)) = None
   \<and> files (snd (post_approve_complete 9 ''e9'' dangling_state ''e0'' True))
         (get_temp_execution_directory ''p1'' ''e0'')
       = Some Dir"
  by (simp add: post_approve_complete_def get_db_def approve_complete_def
        complete_checkpoint_and_advance_def
        dangling_state_def empty_state_def demo_execution_def
        demo_checkpoint_def demo_run_def demo_pipeline_def get_checkpoint_definition_def
        get_run_def get_pipeline_def get_execution_def mark_completed_def promote_all_def
        artifacts_of_def advance_or_finish_def py_index_def Let_def
        save_execution_def save_run_def add_interaction_def
        dict_get_def path_defs split: prod.splits sum.splits)

subsection \<open>Promotion of staged artifacts\<close>



























subsection \<open>Checkpoint-level rollback\<close>















lemma get_run_tables: "pipeline_runs s' = pipeline_runs s \<Longrightarrow> get_run s' rid = get_run s rid"
  by (simp add: get_run_def)








end
